theory Spec2Isabelle
  imports Main "HOL-Library.Word"
begin

section \<open>Python values and exceptions\<close>

text \<open>
  The exceptions the modelled code paths raise. A function that can raise returns
  \<open>error + 'a\<close>, with \<open>Inl\<close> for the exception.
\<close>

datatype error =
  IndexError | ValueError | TypeError | AttributeError | UnicodeEncodeError | ArgumentError

section \<open>Device metadata: \<open>get_device_name\<close>, \<open>get_device_type_id\<close>\<close>

text \<open>
  The dictionary literal \<open>devices\<close> of \<open>get_device_name\<close>, in source order. The keys
  are distinct, so \<open>map_of\<close> is the dictionary.
\<close>

definition get_device_name_devices :: "(int \<times> string) list" where
  "get_device_name_devices =
     [(0x10, ''ATECC108A''),
      (0x50, ''ATECC508A''),
      (0x60, ''ATECC608''),
      (0x20, ''ECC204''),
      (0x00, ''ATSHA204A''),
      (0x02, ''ATSHA204A''),
      (0x40, ''ATSHA206A'')]"

text \<open>
  \<open>revision\<close> is the info byte array of \<open>atcab_info\<close>: a sequence of Python ints.
  \<open>revision[2]\<close> raises \<open>IndexError\<close> on a sequence shorter than three elements;
  \<open>devices.get(k, 'UNKNOWN')\<close> is the lookup with a default.
\<close>

definition get_device_name :: "int list \<Rightarrow> error + string" where
  "get_device_name revision =
     (if length revision \<le> 2 then Inl IndexError
      else Inr (case map_of get_device_name_devices (revision ! 2) of
                  Some device_name \<Rightarrow> device_name
                | None \<Rightarrow> ''UNKNOWN''))"

text \<open>
  \<open>str.upper\<close> on ASCII text: the letters a to z move to A to Z, every other character
  stays. Device names are ASCII; the case mapping of other code points is not modelled.
\<close>

definition upper_char :: "char \<Rightarrow> char" where
  "upper_char c =
     (let n = (of_char c :: nat) in if 97 \<le> n \<and> n \<le> 122 then char_of (n - 32) else c)"

definition str_upper :: "string \<Rightarrow> string" where
  "str_upper s = map upper_char s"

text \<open>The dictionary literal \<open>devices\<close> of \<open>get_device_type_id\<close>, in source order.\<close>

definition get_device_type_id_devices :: "(string \<times> int) list" where
  "get_device_type_id_devices =
     [(''ATSHA204A'', 0),
      (''ATECC108A'', 1),
      (''ATECC508A'', 2),
      (''ATECC608A'', 3),
      (''ATECC608B'', 3),
      (''ATECC608'', 3),
      (''ATSAH206A'', 4),
      (''ECC204'', 5),
      (''UNKNOWN'', 0x20)]"

text \<open>
  \<open>devices.get(name.upper())\<close> has no default: an absent key gives Python's \<open>None\<close>,
  here \<open>None\<close> of the option type.
\<close>

definition get_device_type_id :: "string \<Rightarrow> int option" where
  "get_device_type_id name = map_of get_device_type_id_devices (str_upper name)"


section \<open>Boxed scalars: \<open>AtcaReference\<close>\<close>

text \<open>
  \<open>AtcaReference\<close> wraps one value so that a call can return through it. The library
  boxes integers; the comparison methods hand the comparison to the wrapped value, and
  Python's comparisons of two ints are HOL's on \<open>int\<close>.
\<close>

datatype AtcaReference = AtcaReference (ref_value: int)

definition AtcaReference_eq :: "AtcaReference \<Rightarrow> int \<Rightarrow> bool" where
  "AtcaReference_eq self other = (ref_value self = other)"

definition AtcaReference_ne :: "AtcaReference \<Rightarrow> int \<Rightarrow> bool" where
  "AtcaReference_ne self other = (ref_value self \<noteq> other)"

definition AtcaReference_lt :: "AtcaReference \<Rightarrow> int \<Rightarrow> bool" where
  "AtcaReference_lt self other = (ref_value self < other)"

definition AtcaReference_le :: "AtcaReference \<Rightarrow> int \<Rightarrow> bool" where
  "AtcaReference_le self other = (ref_value self \<le> other)"

definition AtcaReference_gt :: "AtcaReference \<Rightarrow> int \<Rightarrow> bool" where
  "AtcaReference_gt self other = (ref_value self > other)"

definition AtcaReference_ge :: "AtcaReference \<Rightarrow> int \<Rightarrow> bool" where
  "AtcaReference_ge self other = (ref_value self \<ge> other)"

definition AtcaReference_int :: "AtcaReference \<Rightarrow> int" where
  "AtcaReference_int self = ref_value self"

section \<open>ctypes types\<close>

text \<open>
  The ctypes types the library builds its records from: the fixed-width unsigned
  integers, \<open>c_char\<close>, arrays (\<open>elem * n\<close>), and the classes that derive from
  \<open>AtcaStructure\<close> and \<open>AtcaUnion\<close> with a \<open>_fields_\<close> list of (name, type) pairs.
  \<open>Derived cid base\<close> is a class that derives from the class \<open>base\<close> and adds no
  \<open>_fields_\<close> (\<open>class B(A): pass\<close>): it has the layout and the behaviour of \<open>base\<close>,
  and its instances are also instances of \<open>base\<close>.

  A \<open>class_id\<close> is the identity of a class object. Every class statement makes a new
  class, so two classes have two identities, also when they are given the same name
  and the same \<open>_fields_\<close>. Bit-fields, pointers and derived classes that add fields are
  not modelled.
\<close>

type_synonym class_id = string

datatype ctype =
    c_uint8
  | c_uint16
  | c_uint32
  | c_char
  | Array ctype nat
  | AtcaStructure class_id "(string \<times> ctype) list"
  | AtcaUnion class_id "(string \<times> ctype) list"
  | Derived class_id ctype

text \<open>
  \<open>root T\<close> is the class from which \<open>T\<close> has its layout; \<open>mro T\<close> lists \<open>T\<close> and the
  modelled classes it derives from.
\<close>

fun root :: "ctype \<Rightarrow> ctype" where
  "root (Derived cid base) = root base"
| "root T = T"

fun mro :: "ctype \<Rightarrow> ctype list" where
  "mro (Derived cid base) = Derived cid base # mro base"
| "mro T = [T]"

text \<open>\<open>c_uint\<close> is ctypes' name for the 32-bit unsigned integer.\<close>

abbreviation c_uint :: ctype where
  "c_uint \<equiv> c_uint32"

section \<open>Size and type introspection\<close>

text \<open>
  The loaded library, as far as \<open>getattr\<close> sees it: a symbol name gives a function of
  no arguments that returns an int, or the symbol is absent. The global \<open>_CRYPTO_LIB\<close>
  is \<open>None\<close> until a library is loaded; it is passed to the functions that read it.
\<close>

type_synonym library = "string \<rightharpoonup> (unit \<Rightarrow> int)"

text \<open>\<open>getattr(obj, name, default)\<close> on the library handle.\<close>

definition getattr :: "library option \<Rightarrow> string \<Rightarrow> (unit \<Rightarrow> int) \<Rightarrow> (unit \<Rightarrow> int)" where
  "getattr lib attr dflt =
     (case lib of
        None \<Rightarrow> dflt
      | Some symbols \<Rightarrow> (case symbols attr of None \<Rightarrow> dflt | Some f \<Rightarrow> f))"

definition get_size_by_name :: "library option \<Rightarrow> string \<Rightarrow> int" where
  "get_size_by_name CRYPTO_LIB name = getattr CRYPTO_LIB (name @ ''_size'') (\<lambda>_. 4) ()"

text \<open>The dictionary \<open>_CTYPES_BY_SIZE\<close>.\<close>

definition CTYPES_BY_SIZE :: "(int \<times> ctype) list" where
  "CTYPES_BY_SIZE = [(1, c_uint8), (2, c_uint16), (4, c_uint32)]"

definition get_ctype_by_name :: "library option \<Rightarrow> string \<Rightarrow> ctype option" where
  "get_ctype_by_name CRYPTO_LIB name = map_of CTYPES_BY_SIZE (get_size_by_name CRYPTO_LIB name)"

section \<open>Sizes and layout of ctypes types\<close>

text \<open>
  ctypes lays a structure out as the C compiler does: every field at the next offset
  that is a multiple of its alignment, the whole rounded up to the largest alignment.
  All fields of a union start at offset 0.
\<close>

type_synonym byte = "8 word"

definition align_up :: "nat \<Rightarrow> nat \<Rightarrow> nat" where
  "align_up a n = ((n + a - 1) div a) * a"

fun alignment :: "ctype \<Rightarrow> nat"
  and fields_alignment :: "(string \<times> ctype) list \<Rightarrow> nat" where
  "alignment c_uint8 = 1"
| "alignment c_uint16 = 2"
| "alignment c_uint32 = 4"
| "alignment c_char = 1"
| "alignment (Array t n) = alignment t"
| "alignment (AtcaStructure name flds) = fields_alignment flds"
| "alignment (AtcaUnion name flds) = fields_alignment flds"
| "alignment (Derived cid base) = alignment base"
| "fields_alignment [] = 1"
| "fields_alignment ((fname, t) # flds) = max (alignment t) (fields_alignment flds)"

text \<open>\<open>sizeof(T)\<close> for a type \<open>T\<close>.\<close>

fun sizeof :: "ctype \<Rightarrow> nat"
  and struct_end :: "nat \<Rightarrow> (string \<times> ctype) list \<Rightarrow> nat"
  and union_end :: "(string \<times> ctype) list \<Rightarrow> nat" where
  "sizeof c_uint8 = 1"
| "sizeof c_uint16 = 2"
| "sizeof c_uint32 = 4"
| "sizeof c_char = 1"
| "sizeof (Array t n) = n * sizeof t"
| "sizeof (AtcaStructure name flds) = align_up (fields_alignment flds) (struct_end 0 flds)"
| "sizeof (AtcaUnion name flds) = align_up (fields_alignment flds) (union_end flds)"
| "sizeof (Derived cid base) = sizeof base"
| "struct_end off [] = off"
| "struct_end off ((fname, t) # flds) =
     struct_end (align_up (alignment t) off + sizeof t) flds"
| "union_end [] = 0"
| "union_end ((fname, t) # flds) = max (sizeof t) (union_end flds)"

text \<open>The field descriptors of a type: name, type and offset of every field.\<close>

fun struct_layout :: "nat \<Rightarrow> (string \<times> ctype) list \<Rightarrow> (string \<times> ctype \<times> nat) list" where
  "struct_layout off [] = []"
| "struct_layout off ((fname, t) # flds) =
     (fname, t, align_up (alignment t) off)
       # struct_layout (align_up (alignment t) off + sizeof t) flds"

definition union_layout :: "(string \<times> ctype) list \<Rightarrow> (string \<times> ctype \<times> nat) list" where
  "union_layout flds = map (\<lambda>(fname, t). (fname, t, 0)) flds"

definition layout :: "ctype \<Rightarrow> (string \<times> ctype \<times> nat) list" where
  "layout T =
     (case root T of
        AtcaStructure name flds \<Rightarrow> struct_layout 0 flds
      | AtcaUnion name flds \<Rightarrow> union_layout flds
      | _ \<Rightarrow> [])"

section \<open>ctypes instances and Python values\<close>

text \<open>
  A ctypes instance is its class and the bytes of its backing memory. \<open>sizeof(obj)\<close> on
  an instance is the size of that memory. \<open>isinstance(obj, cls)\<close> looks for \<open>cls\<close> among
  the class of \<open>obj\<close> and its base classes.
\<close>

datatype cobj = CData (ctype_of: ctype) (mem: "byte list")

definition sizeof_instance :: "cobj \<Rightarrow> nat" where
  "sizeof_instance obj = length (mem obj)"

definition isinstance :: "cobj \<Rightarrow> ctype \<Rightarrow> bool" where
  "isinstance obj cls = (cls \<in> set (mro (ctype_of obj)))"

text \<open>
  The Python values the marshalling functions tell apart: ints, strings, bytes, lists,
  dicts with string keys (in insertion order), members of an \<open>AtcaEnum\<close> (with the
  int that \<open>int(value)\<close> gives) and ctypes instances.
\<close>

datatype pyval =
    PyInt int
  | PyStr string
  | PyBytes "byte list"
  | PyList "pyval list"
  | PyDict "(string \<times> pyval) list"
  | PyEnum int
  | PyCData cobj

text \<open>
  \<open>memmove(dst, src, count)\<close>: the first \<open>count\<close> bytes of \<open>dst\<close> become those of
  \<open>src\<close>. \<open>write_at\<close> is the copy of a byte string to an offset inside an instance.
\<close>

definition memmove :: "byte list \<Rightarrow> byte list \<Rightarrow> nat \<Rightarrow> byte list" where
  "memmove dst src count = take count src @ drop count dst"

definition write_at :: "byte list \<Rightarrow> nat \<Rightarrow> byte list \<Rightarrow> byte list" where
  "write_at m off bs = take off m @ bs @ drop (off + length bs) m"

text \<open>
  An unsigned integer of \<open>n\<close> bytes in memory, least significant byte first; ctypes
  does not check for overflow, the value is taken modulo \<open>2 ^ (8 * n)\<close>.
  \<open>bytes_uint\<close> reads such bytes back.
\<close>

definition uint_bytes :: "nat \<Rightarrow> int \<Rightarrow> byte list" where
  "uint_bytes n i = map (\<lambda>k. word_of_int (i div 2 ^ (8 * k))) [0..<n]"

definition bytes_uint :: "byte list \<Rightarrow> int" where
  "bytes_uint bs = foldr (\<lambda>b acc. uint b + 256 * acc) bs 0"

text \<open>\<open>len(x)\<close>, \<open>list(x)\<close> and \<open>bytes(x)\<close> on these values.\<close>

definition getitem :: "ctype \<Rightarrow> byte list \<Rightarrow> pyval" where
  "getitem t bs =
     (case t of
        c_uint8 \<Rightarrow> PyInt (bytes_uint bs)
      | c_uint16 \<Rightarrow> PyInt (bytes_uint bs)
      | c_uint32 \<Rightarrow> PyInt (bytes_uint bs)
      | c_char \<Rightarrow> PyBytes bs
      | _ \<Rightarrow> PyCData (CData t bs))"

definition Array_items :: "ctype \<Rightarrow> nat \<Rightarrow> byte list \<Rightarrow> pyval list" where
  "Array_items t n m = map (\<lambda>i. getitem t (take (sizeof t) (drop (i * sizeof t) m))) [0..<n]"

definition py_len :: "pyval \<Rightarrow> error + nat" where
  "py_len v =
     (case v of
        PyStr s \<Rightarrow> Inr (length s)
      | PyBytes bs \<Rightarrow> Inr (length bs)
      | PyList xs \<Rightarrow> Inr (length xs)
      | PyDict d \<Rightarrow> Inr (length d)
      | PyCData obj \<Rightarrow>
          (case root (ctype_of obj) of
             Array t n \<Rightarrow> Inr n
           | _ \<Rightarrow> Inl TypeError)
      | _ \<Rightarrow> Inl TypeError)"

definition py_list :: "pyval \<Rightarrow> error + pyval list" where
  "py_list v =
     (case v of
        PyStr s \<Rightarrow> Inr (map (\<lambda>c. PyStr [c]) s)
      | PyBytes bs \<Rightarrow> Inr (map (\<lambda>b. PyInt (uint b)) bs)
      | PyList xs \<Rightarrow> Inr xs
      | PyDict d \<Rightarrow> Inr (map (\<lambda>(k, x). PyStr k) d)
      | PyCData obj \<Rightarrow>
          (case root (ctype_of obj) of
             Array t n \<Rightarrow> Inr (Array_items t n (mem obj))
           | _ \<Rightarrow> Inl TypeError)
      | _ \<Rightarrow> Inl TypeError)"

fun bytes_of_ints :: "pyval list \<Rightarrow> error + byte list" where
  "bytes_of_ints [] = Inr []"
| "bytes_of_ints (PyInt i # xs) =
     (if 0 \<le> i \<and> i < 256
      then (case bytes_of_ints xs of Inl e \<Rightarrow> Inl e | Inr bs \<Rightarrow> Inr (word_of_int i # bs))
      else Inl ValueError)"
| "bytes_of_ints (x # xs) = Inl TypeError"

definition py_bytes :: "pyval \<Rightarrow> error + byte list" where
  "py_bytes v =
     (case v of
        PyInt n \<Rightarrow> (if n < 0 then Inl ValueError else Inr (replicate (nat n) 0))
      | PyStr s \<Rightarrow> Inl TypeError
      | PyBytes bs \<Rightarrow> Inr bs
      | PyEnum i \<Rightarrow> Inl TypeError
      | PyCData obj \<Rightarrow> Inr (mem obj)
      | _ \<Rightarrow> (case py_list v of Inl e \<Rightarrow> Inl e | Inr xs \<Rightarrow> bytes_of_ints xs))"

text \<open>\<open>s.encode('ascii')\<close>.\<close>

definition encode_ascii :: "string \<Rightarrow> error + byte list" where
  "encode_ascii s =
     (if \<forall>c \<in> set s. (of_char c :: nat) < 128 then Inr (map of_char s)
      else Inl UnicodeEncodeError)"

text \<open>\<open>d[key] = v\<close> on a dict: an existing key keeps its place.\<close>

fun dict_set :: "(string \<times> pyval) list \<Rightarrow> string \<Rightarrow> pyval \<Rightarrow> (string \<times> pyval) list" where
  "dict_set [] key v = [(key, v)]"
| "dict_set ((key', v') # d) key v =
     (if key' = key then (key, v) # d else (key', v') # dict_set d key v)"

section \<open>The ctypes constructors\<close>

text \<open>
  What ctypes stores for a Python value. An integer type takes an int, \<open>c_char\<close> one
  byte (or an int below 256); a field that is an array of \<open>c_char\<close> takes bytes up to
  the first NUL, with the NUL when there is room, and refuses bytes that are too
  long. A field or an array item also takes an instance of its own type, whose memory
  is copied. A derived class stores values as its base does.
\<close>

definition int_set :: "nat \<Rightarrow> pyval \<Rightarrow> error + byte list" where
  "int_set n v = (case v of PyInt i \<Rightarrow> Inr (uint_bytes n i) | _ \<Rightarrow> Inl TypeError)"

definition c_set :: "pyval \<Rightarrow> error + byte list" where
  "c_set v =
     (case v of
        PyBytes bs \<Rightarrow> (if length bs = 1 then Inr bs else Inl TypeError)
      | PyInt i \<Rightarrow> (if 0 \<le> i \<and> i \<le> 255 then Inr [word_of_int i] else Inl TypeError)
      | _ \<Rightarrow> Inl TypeError)"

definition s_set :: "nat \<Rightarrow> pyval \<Rightarrow> error + byte list" where
  "s_set n v =
     (case v of
        PyBytes bs \<Rightarrow>
          (let data = takeWhile (\<lambda>b. b \<noteq> 0) bs in
           if length data < n then Inr (data @ [0])
           else if length data > n then Inl ValueError
           else Inr data)
      | _ \<Rightarrow> Inl TypeError)"

definition setfunc :: "ctype \<Rightarrow> pyval \<Rightarrow> error + byte list" where
  "setfunc t v =
     (case root t of
        c_uint8 \<Rightarrow> int_set 1 v
      | c_uint16 \<Rightarrow> int_set 2 v
      | c_uint32 \<Rightarrow> int_set 4 v
      | c_char \<Rightarrow> c_set v
      | _ \<Rightarrow> Inl TypeError)"

definition cdata_set :: "ctype \<Rightarrow> pyval \<Rightarrow> error + byte list" where
  "cdata_set t v =
     (case v of
        PyCData src \<Rightarrow>
          (if isinstance src t then Inr (take (sizeof t) (mem src)) else Inl TypeError)
      | _ \<Rightarrow> setfunc t v)"

definition field_set :: "ctype \<Rightarrow> pyval \<Rightarrow> error + byte list" where
  "field_set t v =
     (case root t of
        Array elem n \<Rightarrow> (if root elem = c_char then s_set n v else cdata_set t v)
      | _ \<Rightarrow> cdata_set t v)"

text \<open>
  \<open>setattr(self, fname, v)\<close> on a structure or union: a field is written at its offset
  (the last field of that name, if \<open>_fields_\<close> repeats one); any other name becomes a
  plain attribute and leaves the memory as it is.
\<close>

definition Struct_setattr ::
  "(string \<times> ctype \<times> nat) list \<Rightarrow> byte list \<Rightarrow> string \<Rightarrow> pyval \<Rightarrow> error + byte list" where
  "Struct_setattr lay m fname v =
     (case map_of (rev lay) fname of
        None \<Rightarrow> Inr m
      | Some (t, off) \<Rightarrow>
          (case field_set t v of Inl e \<Rightarrow> Inl e | Inr bs \<Rightarrow> Inr (write_at m off bs)))"

text \<open>
  \<open>Structure.__init__(*args, **kwds)\<close> of ctypes, the same for \<open>Union\<close>: the memory
  starts zeroed, the positional arguments go to the fields in order (more arguments
  than fields, or a field also given by keyword, is a \<open>TypeError\<close>), then every
  keyword is set as an attribute.
\<close>

fun init_pos_args ::
  "(string \<times> ctype \<times> nat) list \<Rightarrow> (string \<times> ctype) list \<Rightarrow> pyval list \<Rightarrow>
   (string \<times> pyval) list \<Rightarrow> byte list \<Rightarrow> error + byte list" where
  "init_pos_args lay flds [] kwds m = Inr m"
| "init_pos_args lay [] (a # args) kwds m = Inl TypeError"
| "init_pos_args lay ((fname, t) # flds) (a # args) kwds m =
     (if fname \<in> fst ` set kwds then Inl TypeError
      else case Struct_setattr lay m fname a of
             Inl e \<Rightarrow> Inl e
           | Inr m' \<Rightarrow> init_pos_args lay flds args kwds m')"

fun init_kwds ::
  "(string \<times> ctype \<times> nat) list \<Rightarrow> (string \<times> pyval) list \<Rightarrow> byte list \<Rightarrow> error + byte list" where
  "init_kwds lay [] m = Inr m"
| "init_kwds lay ((key, v) # kwds) m =
     (case Struct_setattr lay m key v of
        Inl e \<Rightarrow> Inl e
      | Inr m' \<Rightarrow> init_kwds lay kwds m')"

definition Struct_init ::
  "ctype \<Rightarrow> (string \<times> ctype) list \<Rightarrow> pyval list \<Rightarrow> (string \<times> pyval) list \<Rightarrow> error + cobj" where
  "Struct_init T flds args kwds =
     (case init_pos_args (layout T) flds args kwds (replicate (sizeof T) 0) of
        Inl e \<Rightarrow> Inl e
      | Inr m \<Rightarrow>
          (case init_kwds (layout T) kwds m of
             Inl e \<Rightarrow> Inl e
           | Inr m' \<Rightarrow> Inr (CData T m')))"

text \<open>
  \<open>Array.__init__(*args)\<close> on an instance of the class \<open>T\<close>, an array of \<open>n\<close> items of
  type \<open>t\<close>: item \<open>i\<close> is set from argument \<open>i\<close>; an argument past the end is an
  \<open>IndexError\<close>.
\<close>

fun Array_setitems :: "ctype \<Rightarrow> nat \<Rightarrow> nat \<Rightarrow> pyval list \<Rightarrow> byte list \<Rightarrow> error + byte list" where
  "Array_setitems t n i [] m = Inr m"
| "Array_setitems t n i (a # args) m =
     (if n \<le> i then Inl IndexError
      else case cdata_set t a of
             Inl e \<Rightarrow> Inl e
           | Inr bs \<Rightarrow> Array_setitems t n (Suc i) args (write_at m (i * sizeof t) bs))"

definition Array_init :: "ctype \<Rightarrow> ctype \<Rightarrow> nat \<Rightarrow> pyval list \<Rightarrow> error + cobj" where
  "Array_init T t n args =
     (case Array_setitems t n 0 args (replicate (sizeof T) 0) of
        Inl e \<Rightarrow> Inl e
      | Inr m \<Rightarrow> Inr (CData T m))"

text \<open>The constructor of an integer type or of \<open>c_char\<close>: no argument, or the value.\<close>

definition Simple_init :: "ctype \<Rightarrow> pyval list \<Rightarrow> error + cobj" where
  "Simple_init T args =
     (case args of
        [] \<Rightarrow> Inr (CData T (replicate (sizeof T) 0))
      | [v] \<Rightarrow> (case setfunc T v of
                  Inl e \<Rightarrow> Inl e
                | Inr bs \<Rightarrow> Inr (CData T bs))
      | _ \<Rightarrow> Inl TypeError)"

definition ctypes_init :: "ctype \<Rightarrow> pyval list \<Rightarrow> (string \<times> pyval) list \<Rightarrow> error + cobj" where
  "ctypes_init T args kwds =
     (case root T of
        Array t n \<Rightarrow> Array_init T t n args
      | AtcaStructure name flds \<Rightarrow> Struct_init T flds args kwds
      | AtcaUnion name flds \<Rightarrow> Struct_init T flds args kwds
      | _ \<Rightarrow> Simple_init T args)"

text \<open>\<open>c_uint(i)\<close>, and \<open>T.from_buffer_copy(source)\<close>.\<close>

definition c_uint_value :: "int \<Rightarrow> cobj" where
  "c_uint_value i = CData c_uint (uint_bytes 4 i)"

definition from_buffer_copy :: "ctype \<Rightarrow> cobj \<Rightarrow> error + cobj" where
  "from_buffer_copy T source =
     (if sizeof_instance source < sizeof T then Inl ValueError
      else Inr (CData T (take (sizeof T) (mem source))))"

text \<open>\<open>isinstance(T(), Union)\<close>, \<open>isinstance(T(), Structure)\<close>, \<open>isinstance(T(), Array)\<close>.\<close>

definition is_Union :: "ctype \<Rightarrow> bool" where
  "is_Union t = (case root t of AtcaUnion name flds \<Rightarrow> True | _ \<Rightarrow> False)"

definition is_Structure :: "ctype \<Rightarrow> bool" where
  "is_Structure t = (case root t of AtcaStructure name flds \<Rightarrow> True | _ \<Rightarrow> False)"

definition is_Array :: "ctype \<Rightarrow> bool" where
  "is_Array t = (case root t of Array elem n \<Rightarrow> True | _ \<Rightarrow> False)"

definition is_simple :: "ctype \<Rightarrow> bool" where
  "is_simple t =
     (root t = c_uint8 \<or> root t = c_uint16 \<or> root t = c_uint32 \<or> root t = c_char)"

section \<open>Marshalling: \<open>get_ctype_structure_instance\<close>, \<open>get_ctype_array_instance\<close>\<close>

text \<open>
  The two helper functions and the constructor of \<open>AtcaStructure\<close> and \<open>AtcaUnion\<close>
  call each other. \<open>ctypes_call T args kwargs\<close> is the call \<open>T(*args, **kwargs)\<close>; for a
  structure or a union it runs the loop of \<open>__init__\<close> over \<open>_fields_\<close>
  (\<open>AtcaStructure_init\<close>, which replaces the keyword of a union, structure or array
  field by the converted value) and then the ctypes initialiser.
  \<open>convert_elements t value\<close> is the list \<open>[get_ctype_structure_instance(t, e) for e in
  value]\<close>.

  \<open>isinstance(value, structure)\<close> holds for an instance of \<open>structure\<close> and of every
  class derived from it. A derived class inherits \<open>_fields_\<close> and \<open>_type_\<close>.

  In \<open>get_ctype_array_instance\<close>, \<open>array._type_\<close> is the element type of an array type;
  a structure or union class has no such attribute, and on an integer type it is a
  one-letter string, which is neither \<open>c_char\<close> nor callable nor a class.
\<close>

function (sequential) get_ctype_structure_instance :: "ctype \<Rightarrow> pyval \<Rightarrow> error + pyval"
  and get_ctype_array_instance :: "ctype \<Rightarrow> pyval \<Rightarrow> error + pyval"
  and convert_elements :: "ctype \<Rightarrow> pyval list \<Rightarrow> error + pyval list"
  and ctypes_call :: "ctype \<Rightarrow> pyval list \<Rightarrow> (string \<times> pyval) list \<Rightarrow> error + cobj"
  and AtcaStructure_init ::
    "(string \<times> ctype) list \<Rightarrow> (string \<times> pyval) list \<Rightarrow> error + (string \<times> pyval) list" where
  "get_ctype_structure_instance structure (PyDict d) =
     (case ctypes_call structure [] d of Inl e \<Rightarrow> Inl e | Inr r \<Rightarrow> Inr (PyCData r))"
| "get_ctype_structure_instance structure (PyInt i) =
     (case from_buffer_copy structure (c_uint_value i) of
        Inl e \<Rightarrow> Inl e
      | Inr r \<Rightarrow> Inr (PyCData r))"
| "get_ctype_structure_instance structure (PyEnum i) =
     (case from_buffer_copy structure (c_uint_value i) of
        Inl e \<Rightarrow> Inl e
      | Inr r \<Rightarrow> Inr (PyCData r))"
| "get_ctype_structure_instance structure (PyCData obj) =
     (if \<not> isinstance obj structure
      then (case ctypes_call structure [PyCData obj] [] of
              Inl e \<Rightarrow> Inl e
            | Inr r \<Rightarrow> Inr (PyCData r))
      else Inr (PyCData obj))"
| "get_ctype_structure_instance structure v =
     (case ctypes_call structure [v] [] of Inl e \<Rightarrow> Inl e | Inr r \<Rightarrow> Inr (PyCData r))"
| "get_ctype_array_instance array v =
     (case root array of
        Array t n \<Rightarrow>
          (if t = c_char then
             (case v of
                PyStr s \<Rightarrow> (case encode_ascii s of Inl e \<Rightarrow> Inl e | Inr a \<Rightarrow> Inr (PyBytes a))
              | _ \<Rightarrow> (case py_bytes v of Inl e \<Rightarrow> Inl e | Inr a \<Rightarrow> Inr (PyBytes a)))
           else
             (case py_list v of
                Inl e \<Rightarrow> Inl e
              | Inr es \<Rightarrow>
                  (case convert_elements t es of
                     Inl e \<Rightarrow> Inl e
                   | Inr xs \<Rightarrow>
                       (case ctypes_call array xs [] of
                          Inl e \<Rightarrow> Inl e
                        | Inr a \<Rightarrow> Inr (PyCData a)))))
      | AtcaStructure cid flds \<Rightarrow> Inl AttributeError
      | AtcaUnion cid flds \<Rightarrow> Inl AttributeError
      | _ \<Rightarrow>
          (case py_list v of
             Inl e \<Rightarrow> Inl e
           | Inr [] \<Rightarrow>
               (case ctypes_call array [] [] of Inl e \<Rightarrow> Inl e | Inr a \<Rightarrow> Inr (PyCData a))
           | Inr (PyDict d # es) \<Rightarrow> Inl TypeError
           | Inr (PyInt i # es) \<Rightarrow> Inl AttributeError
           | Inr (PyEnum i # es) \<Rightarrow> Inl AttributeError
           | Inr (e # es) \<Rightarrow> Inl TypeError))"
| "convert_elements t [] = Inr []"
| "convert_elements t (e # es) =
     (case get_ctype_structure_instance t e of
        Inl err \<Rightarrow> Inl err
      | Inr x \<Rightarrow> (case convert_elements t es of Inl err \<Rightarrow> Inl err | Inr xs \<Rightarrow> Inr (x # xs)))"
| "ctypes_call T args kwargs =
     (case root T of
        AtcaStructure cid flds \<Rightarrow>
          (case AtcaStructure_init flds kwargs of
             Inl e \<Rightarrow> Inl e
           | Inr kwargs' \<Rightarrow> ctypes_init T args kwargs')
      | AtcaUnion cid flds \<Rightarrow>
          (case AtcaStructure_init flds kwargs of
             Inl e \<Rightarrow> Inl e
           | Inr kwargs' \<Rightarrow> ctypes_init T args kwargs')
      | _ \<Rightarrow> ctypes_init T args kwargs)"
| "AtcaStructure_init [] kwargs = Inr kwargs"
| "AtcaStructure_init ((fname, ftype) # flds) kwargs =
     (case map_of kwargs fname of
        None \<Rightarrow> AtcaStructure_init flds kwargs
      | Some v \<Rightarrow>
          (if is_Union ftype then
             (case get_ctype_structure_instance ftype v of
                Inl e \<Rightarrow> Inl e
              | Inr r \<Rightarrow> AtcaStructure_init flds (dict_set kwargs fname r))
           else if is_Structure ftype then
             (case get_ctype_structure_instance ftype v of
                Inl e \<Rightarrow> Inl e
              | Inr r \<Rightarrow> AtcaStructure_init flds (dict_set kwargs fname r))
           else if is_Array ftype then
             (case get_ctype_array_instance ftype v of
                Inl e \<Rightarrow> Inl e
              | Inr r \<Rightarrow> AtcaStructure_init flds (dict_set kwargs fname r))
           else AtcaStructure_init flds kwargs))"
  by pat_completeness auto

termination
proof -
  have root_size: "size (root T) \<le> size T" for T
    by (induction T) simp_all
  have elem: "size t < size T" if "root T = Array t n" for T t n
    using root_size [of T] that by simp
  have struct: "size_list (size_prod (\<lambda>x. 0) size) flds < size T"
    if "root T = AtcaStructure cid flds" for T cid flds
    using root_size [of T] that by simp
  have union: "size_list (size_prod (\<lambda>x. 0) size) flds < size T"
    if "root T = AtcaUnion cid flds" for T cid flds
    using root_size [of T] that by simp
  show ?thesis
    by (relation "measures
        [case_sum (case_sum (\<lambda>(T, v). size T) (\<lambda>(T, v). size T))
           (case_sum (\<lambda>(t, es). size t)
              (case_sum (\<lambda>(T, args, kwargs). size T)
                 (\<lambda>(flds, kwargs). size_list (size_prod (\<lambda>x. 0) size) flds))),
         case_sum (case_sum (\<lambda>(T, v). 1) (\<lambda>(T, v). 2))
           (case_sum (\<lambda>(t, es). 3)
              (case_sum (\<lambda>(T, args, kwargs). 0) (\<lambda>(flds, kwargs). 0))),
         case_sum (case_sum (\<lambda>(T, v). 0) (\<lambda>(T, v). 0))
           (case_sum (\<lambda>(t, es). length es)
              (case_sum (\<lambda>(T, args, kwargs). 0) (\<lambda>(flds, kwargs). 0)))]")
       (auto dest: elem struct union)
qed

declare get_ctype_array_instance.simps [simp del] and ctypes_call.simps [simp del]

section \<open>\<open>AtcaStructure.update_from_buffer\<close>, \<open>ctypes_to_bytes\<close>, \<open>create_byte_buffer\<close>\<close>

text \<open>
  The byte sequences a caller can hand to \<open>update_from_buffer\<close>: a bytes object, a
  bytearray, a memoryview of bytes, a list or a tuple of ints, and a ctypes array of
  \<open>c_uint8\<close> (what \<open>create_byte_buffer\<close> returns). \<open>len\<close> counts the elements of each.
\<close>

datatype byteseq =
    Bytes "byte list"
  | ByteArray "byte list"
  | Memoryview "byte list"
  | ListOf "int list"
  | TupleOf "int list"
  | Uint8Array "byte list"

definition byteseq_len :: "byteseq \<Rightarrow> nat" where
  "byteseq_len buffer =
     (case buffer of
        Bytes bs \<Rightarrow> length bs
      | ByteArray bs \<Rightarrow> length bs
      | Memoryview bs \<Rightarrow> length bs
      | ListOf xs \<Rightarrow> length xs
      | TupleOf xs \<Rightarrow> length xs
      | Uint8Array bs \<Rightarrow> length bs)"

text \<open>
  \<open>memmove\<close> declares its source as a \<open>c_void_p\<close>. ctypes passes a bytes object and a
  ctypes array as a pointer to their bytes; for a bytearray, a memoryview, a list or a
  tuple the call raises \<open>ctypes.ArgumentError\<close> before anything is copied.
\<close>

definition c_void_p_from_param :: "byteseq \<Rightarrow> error + byte list" where
  "c_void_p_from_param buffer =
     (case buffer of
        Bytes bs \<Rightarrow> Inr bs
      | Uint8Array bs \<Rightarrow> Inr bs
      | _ \<Rightarrow> Inl ArgumentError)"

text \<open>
  \<open>update_from_buffer\<close> changes \<open>self\<close> in place: the model returns the outcome of the
  call (the exception, or nothing) together with \<open>self\<close> after the call.
\<close>

definition update_from_buffer :: "cobj \<Rightarrow> byteseq \<Rightarrow> (error + unit) \<times> cobj" where
  "update_from_buffer self buffer =
     (if byteseq_len buffer < sizeof_instance self then (Inl ValueError, self)
      else case c_void_p_from_param buffer of
             Inl e \<Rightarrow> (Inl e, self)
           | Inr src \<Rightarrow>
               (Inr (), CData (ctype_of self) (memmove (mem self) src (sizeof_instance self))))"

text \<open>
  \<open>create_string_buffer(n)\<close> is \<open>n\<close> zero bytes; \<open>buf.raw\<close> is all of them, the content
  of the bytes object that \<open>ctypes_to_bytes\<close> returns.
\<close>

definition create_string_buffer :: "nat \<Rightarrow> byte list" where
  "create_string_buffer n = replicate n 0"

definition ctypes_to_bytes :: "cobj \<Rightarrow> byte list" where
  "ctypes_to_bytes obj =
     (let buf = create_string_buffer (sizeof_instance obj)
      in memmove buf (mem obj) (sizeof_instance obj))"

text \<open>
  \<open>c_uint8 * n\<close> with a negative \<open>n\<close> raises \<open>ValueError\<close>; \<open>len\<close> is taken before
  \<open>list\<close>.
\<close>

definition create_byte_buffer :: "pyval \<Rightarrow> error + cobj" where
  "create_byte_buffer init_or_size =
     (case init_or_size of
        PyInt n \<Rightarrow>
          (if n < 0 then Inl ValueError else ctypes_call (Array c_uint8 (nat n)) [] [])
      | _ \<Rightarrow>
          (case py_len init_or_size of
             Inl e \<Rightarrow> Inl e
           | Inr n \<Rightarrow>
               (case py_list init_or_size of
                  Inl e \<Rightarrow> Inl e
                | Inr xs \<Rightarrow> ctypes_call (Array c_uint8 n) xs [])))"

section \<open>Properties of the device metadata\<close>

lemma upper_char_idem: "upper_char (upper_char c) = upper_char c"
  unfolding upper_char_def Let_def by auto

lemma str_upper_idem: "str_upper (str_upper s) = str_upper s"
  by (simp add: str_upper_def upper_char_idem)

lemma get_device_name_keys:
  "fst ` set get_device_name_devices = {0x10, 0x50, 0x60, 0x20, 0x00, 0x02, 0x40}"
  by (simp add: get_device_name_devices_def)

text \<open>
  C6. On a revision of at least three elements, \<open>get_device_name\<close> returns the name the
  table gives for the third element when that element is one of the seven keys, and
  the string UNKNOWN for every other value.
\<close>

theorem get_device_name_table:
  assumes "3 \<le> length revision"
  shows "(revision ! 2 = 0x10 \<longrightarrow> get_device_name revision = Inr ''ATECC108A'') \<and>
         (revision ! 2 = 0x50 \<longrightarrow> get_device_name revision = Inr ''ATECC508A'') \<and>
         (revision ! 2 = 0x60 \<longrightarrow> get_device_name revision = Inr ''ATECC608'') \<and>
         (revision ! 2 = 0x20 \<longrightarrow> get_device_name revision = Inr ''ECC204'') \<and>
         (revision ! 2 = 0x00 \<longrightarrow> get_device_name revision = Inr ''ATSHA204A'') \<and>
         (revision ! 2 = 0x02 \<longrightarrow> get_device_name revision = Inr ''ATSHA204A'') \<and>
         (revision ! 2 = 0x40 \<longrightarrow> get_device_name revision = Inr ''ATSHA206A'') \<and>
         (revision ! 2 \<notin> {0x10, 0x50, 0x60, 0x20, 0x00, 0x02, 0x40} \<longrightarrow>
            get_device_name revision = Inr ''UNKNOWN'')"
  using assms by (simp add: get_device_name_def get_device_name_devices_def)

theorem get_device_name_table_witness:
  "get_device_name [0x00, 0x00, 0x10, 0x05] = Inr ''ATECC108A'' \<and>
   get_device_name [0x00, 0x00, 0x50, 0x00] = Inr ''ATECC508A'' \<and>
   get_device_name [0x00, 0x00, 0x60, 0x02] = Inr ''ATECC608'' \<and>
   get_device_name [0x00, 0x00, 0x20, 0x00] = Inr ''ECC204'' \<and>
   get_device_name [0x00, 0x02, 0x00, 0x09] = Inr ''ATSHA204A'' \<and>
   get_device_name [0x00, 0x00, 0x02, 0x00] = Inr ''ATSHA204A'' \<and>
   get_device_name [0x00, 0x00, 0x40, 0x00] = Inr ''ATSHA206A'' \<and>
   get_device_name [0x01, 0x02, 0x77, 0x04] = Inr ''UNKNOWN''"
  using get_device_name_table [of "[0x00, 0x00, 0x10, 0x05]"]
        get_device_name_table [of "[0x00, 0x00, 0x50, 0x00]"]
        get_device_name_table [of "[0x00, 0x00, 0x60, 0x02]"]
        get_device_name_table [of "[0x00, 0x00, 0x20, 0x00]"]
        get_device_name_table [of "[0x00, 0x02, 0x00, 0x09]"]
        get_device_name_table [of "[0x00, 0x00, 0x02, 0x00]"]
        get_device_name_table [of "[0x00, 0x00, 0x40, 0x00]"]
        get_device_name_table [of "[0x01, 0x02, 0x77, 0x04]"]
  by simp

text \<open>
  C1, as the code has it. A name whose upper-cased form is not a key of the table gives
  no integer at all (\<open>None\<close>): the lookup has no default. The name UNKNOWN itself is a
  key and gives 0x20.
\<close>

theorem get_device_type_id_absent:
  "(str_upper name \<notin> fst ` set get_device_type_id_devices \<longrightarrow> get_device_type_id name = None) \<and>
   get_device_type_id ''UNKNOWN'' = Some 0x20"
proof
  show "str_upper name \<notin> fst ` set get_device_type_id_devices \<longrightarrow> get_device_type_id name = None"
    by (simp add: get_device_type_id_def map_of_eq_None_iff)
  show "get_device_type_id ''UNKNOWN'' = Some 0x20"
    by code_simp
qed

theorem get_device_type_id_absent_witness:
  "str_upper ''atecc999'' \<notin> fst ` set get_device_type_id_devices \<and>
   get_device_type_id ''atecc999'' = None"
proof -
  have absent: "str_upper ''atecc999'' \<notin> fst ` set get_device_type_id_devices"
    by code_simp
  with get_device_type_id_absent [of "''atecc999''"] show ?thesis
    by blast
qed

text \<open>
  The claim C1 as written fails: NOT_A_DEVICE is not a key of the table, and the result
  is not 0x20.
\<close>

theorem get_device_type_id_sentinel_counterexample:
  "str_upper ''NOT_A_DEVICE'' \<notin> fst ` set get_device_type_id_devices \<and>
   get_device_type_id ''NOT_A_DEVICE'' \<noteq> Some 0x20"
  by code_simp

text \<open>
  C2. The two lookups composed: a revision whose third element is a key of the name
  table other than 0x40 is named, and the name has a type code. For 0x40 the name is
  ATSHA206A, which is not a key of the type table (the table spells it ATSAH206A, with
  code 4), so the composition gives no integer.
\<close>

theorem device_name_then_type_id:
  assumes "3 \<le> length revision"
  shows "(revision ! 2 \<in> fst ` set get_device_name_devices - {0x40} \<longrightarrow>
            (\<exists>name n. get_device_name revision = Inr name \<and> get_device_type_id name = Some n)) \<and>
         (revision ! 2 = 0x40 \<longrightarrow>
            get_device_name revision = Inr ''ATSHA206A'' \<and>
            get_device_type_id ''ATSHA206A'' = None \<and>
            ''ATSHA206A'' \<notin> fst ` set get_device_type_id_devices \<and>
            map_of get_device_type_id_devices ''ATSAH206A'' = Some 4)"
proof (intro conjI impI)
  assume key: "revision ! 2 \<in> fst ` set get_device_name_devices - {0x40}"
  then consider "revision ! 2 = 0x10" | "revision ! 2 = 0x50" | "revision ! 2 = 0x60"
    | "revision ! 2 = 0x20" | "revision ! 2 = 0x00" | "revision ! 2 = 0x02"
    unfolding get_device_name_keys by auto
  then show "\<exists>name n. get_device_name revision = Inr name \<and> get_device_type_id name = Some n"
  proof cases
    case 1
    have "get_device_type_id ''ATECC108A'' = Some 1" by code_simp
    with 1 assms show ?thesis
      by (simp add: get_device_name_def get_device_name_devices_def)
  next
    case 2
    have "get_device_type_id ''ATECC508A'' = Some 2" by code_simp
    with 2 assms show ?thesis
      by (simp add: get_device_name_def get_device_name_devices_def)
  next
    case 3
    have "get_device_type_id ''ATECC608'' = Some 3" by code_simp
    with 3 assms show ?thesis
      by (simp add: get_device_name_def get_device_name_devices_def)
  next
    case 4
    have "get_device_type_id ''ECC204'' = Some 5" by code_simp
    with 4 assms show ?thesis
      by (simp add: get_device_name_def get_device_name_devices_def)
  next
    case 5
    have "get_device_type_id ''ATSHA204A'' = Some 0" by code_simp
    with 5 assms show ?thesis
      by (simp add: get_device_name_def get_device_name_devices_def)
  next
    case 6
    have "get_device_type_id ''ATSHA204A'' = Some 0" by code_simp
    with 6 assms show ?thesis
      by (simp add: get_device_name_def get_device_name_devices_def)
  qed
next
  assume "revision ! 2 = 0x40"
  with assms show "get_device_name revision = Inr ''ATSHA206A''"
    by (simp add: get_device_name_def get_device_name_devices_def)
next
  show "get_device_type_id ''ATSHA206A'' = None" by code_simp
next
  show "''ATSHA206A'' \<notin> fst ` set get_device_type_id_devices" by code_simp
next
  show "map_of get_device_type_id_devices ''ATSAH206A'' = Some 4" by code_simp
qed

theorem device_name_then_type_id_witness:
  "(\<exists>name n. get_device_name [0x00, 0x00, 0x60, 0x02] = Inr name \<and>
              get_device_type_id name = Some n) \<and>
   get_device_name [0x00, 0x00, 0x40, 0x00] = Inr ''ATSHA206A'' \<and>
   get_device_type_id ''ATSHA206A'' = None"
proof -
  have len: "3 \<le> length [0x00, 0x00, 0x60, 0x02 :: int]"
    and len': "3 \<le> length [0x00, 0x00, 0x40, 0x00 :: int]"
    by simp_all
  have key: "[0x00, 0x00, 0x60, 0x02 :: int] ! 2 \<in> fst ` set get_device_name_devices - {0x40}"
    by (simp add: get_device_name_devices_def)
  have key': "[0x00, 0x00, 0x40, 0x00 :: int] ! 2 = 0x40"
    by simp
  from device_name_then_type_id [OF len] key
       device_name_then_type_id [OF len'] key'
  show ?thesis by blast
qed

text \<open>
  C8. \<open>get_device_type_id\<close> does not see the case of its argument: a name and its
  upper-cased form give the same result, and ecc204 and ECC204 both give 5.
\<close>

theorem get_device_type_id_case_insensitive:
  "get_device_type_id name = get_device_type_id (str_upper name) \<and>
   get_device_type_id ''ecc204'' = Some 5 \<and>
   get_device_type_id ''ECC204'' = Some 5"
proof (intro conjI)
  show "get_device_type_id name = get_device_type_id (str_upper name)"
    by (simp add: get_device_type_id_def str_upper_idem)
  show "get_device_type_id ''ecc204'' = Some 5" by code_simp
  show "get_device_type_id ''ECC204'' = Some 5" by code_simp
qed

section \<open>Properties of the boxed scalar\<close>

text \<open>
  C10. Comparing \<open>AtcaReference(V)\<close> with a plain value gives what comparing \<open>V\<close> with it
  gives, for each of the six comparisons, and \<open>int\<close> of the box is \<open>int\<close> of \<open>V\<close>.
\<close>

theorem AtcaReference_compares_as_value:
  "AtcaReference_eq (AtcaReference V) w = (V = w) \<and>
   AtcaReference_ne (AtcaReference V) w = (V \<noteq> w) \<and>
   AtcaReference_lt (AtcaReference V) w = (V < w) \<and>
   AtcaReference_le (AtcaReference V) w = (V \<le> w) \<and>
   AtcaReference_gt (AtcaReference V) w = (V > w) \<and>
   AtcaReference_ge (AtcaReference V) w = (V \<ge> w) \<and>
   AtcaReference_int (AtcaReference V) = V"
  by (simp add: AtcaReference_eq_def AtcaReference_ne_def AtcaReference_lt_def
      AtcaReference_le_def AtcaReference_gt_def AtcaReference_ge_def AtcaReference_int_def)

section \<open>Properties of the size introspection\<close>

text \<open>
  C7. When the library has no symbol \<open>name_size\<close> (or no library is loaded),
  \<open>get_size_by_name\<close> returns 4. \<open>get_ctype_by_name\<close> returns \<open>c_uint8\<close>, \<open>c_uint16\<close> and
  \<open>c_uint32\<close> for the sizes 1, 2 and 4, and \<open>None\<close> for every other size; it has no
  failing branch.
\<close>

theorem get_ctype_by_name_sizes:
  "((\<forall>symbols. CRYPTO_LIB = Some symbols \<longrightarrow> symbols (name @ ''_size'') = None) \<longrightarrow>
      get_size_by_name CRYPTO_LIB name = 4) \<and>
   (get_size_by_name CRYPTO_LIB name = 1 \<longrightarrow> get_ctype_by_name CRYPTO_LIB name = Some c_uint8) \<and>
   (get_size_by_name CRYPTO_LIB name = 2 \<longrightarrow> get_ctype_by_name CRYPTO_LIB name = Some c_uint16) \<and>
   (get_size_by_name CRYPTO_LIB name = 4 \<longrightarrow> get_ctype_by_name CRYPTO_LIB name = Some c_uint32) \<and>
   (get_size_by_name CRYPTO_LIB name \<notin> {1, 2, 4} \<longrightarrow> get_ctype_by_name CRYPTO_LIB name = None)"
  by (auto simp: get_size_by_name_def getattr_def get_ctype_by_name_def CTYPES_BY_SIZE_def
      split: option.splits)

theorem get_ctype_by_name_sizes_witness:
  "get_size_by_name None ''atca_slot'' = 4 \<and>
   get_size_by_name (Some [''other_size'' \<mapsto> (\<lambda>_. 2)]) ''atca_slot'' = 4 \<and>
   get_ctype_by_name (Some [''a_size'' \<mapsto> (\<lambda>_. 1)]) ''a'' = Some c_uint8 \<and>
   get_ctype_by_name (Some [''a_size'' \<mapsto> (\<lambda>_. 2)]) ''a'' = Some c_uint16 \<and>
   get_ctype_by_name (Some [''a_size'' \<mapsto> (\<lambda>_. 4)]) ''a'' = Some c_uint32 \<and>
   get_ctype_by_name (Some [''a_size'' \<mapsto> (\<lambda>_. 8)]) ''a'' = None"
proof -
  have absent: "\<forall>symbols. (None :: library option) = Some symbols \<longrightarrow>
                  symbols (''atca_slot'' @ ''_size'') = None"
    by simp
  have absent': "\<forall>symbols. Some [''other_size'' \<mapsto> (\<lambda>_. 2::int)] = Some symbols \<longrightarrow>
                   symbols (''atca_slot'' @ ''_size'') = None"
    by simp
  have s1: "get_size_by_name (Some [''a_size'' \<mapsto> (\<lambda>_. 1)]) ''a'' = 1"
    and s2: "get_size_by_name (Some [''a_size'' \<mapsto> (\<lambda>_. 2)]) ''a'' = 2"
    and s4: "get_size_by_name (Some [''a_size'' \<mapsto> (\<lambda>_. 4)]) ''a'' = 4"
    and s8: "get_size_by_name (Some [''a_size'' \<mapsto> (\<lambda>_. 8)]) ''a'' \<notin> {1, 2, 4}"
    by (simp_all add: get_size_by_name_def getattr_def)
  from get_ctype_by_name_sizes [of None "''atca_slot''"] absent
  have "get_size_by_name None ''atca_slot'' = 4" by blast
  moreover
  from get_ctype_by_name_sizes [of "Some [''other_size'' \<mapsto> (\<lambda>_. 2)]" "''atca_slot''"] absent'
  have "get_size_by_name (Some [''other_size'' \<mapsto> (\<lambda>_. 2)]) ''atca_slot'' = 4" by blast
  moreover
  from get_ctype_by_name_sizes [of "Some [''a_size'' \<mapsto> (\<lambda>_. 1)]" "''a''"] s1
  have "get_ctype_by_name (Some [''a_size'' \<mapsto> (\<lambda>_. 1)]) ''a'' = Some c_uint8" by blast
  moreover
  from get_ctype_by_name_sizes [of "Some [''a_size'' \<mapsto> (\<lambda>_. 2)]" "''a''"] s2
  have "get_ctype_by_name (Some [''a_size'' \<mapsto> (\<lambda>_. 2)]) ''a'' = Some c_uint16" by blast
  moreover
  from get_ctype_by_name_sizes [of "Some [''a_size'' \<mapsto> (\<lambda>_. 4)]" "''a''"] s4
  have "get_ctype_by_name (Some [''a_size'' \<mapsto> (\<lambda>_. 4)]) ''a'' = Some c_uint32" by blast
  moreover
  from get_ctype_by_name_sizes [of "Some [''a_size'' \<mapsto> (\<lambda>_. 8)]" "''a''"] s8
  have "get_ctype_by_name (Some [''a_size'' \<mapsto> (\<lambda>_. 8)]) ''a'' = None" by blast
  ultimately show ?thesis by blast
qed

section \<open>Properties of the memory operations\<close>

lemma ctypes_to_bytes_mem: "ctypes_to_bytes obj = mem obj"
  by (simp add: ctypes_to_bytes_def create_string_buffer_def sizeof_instance_def memmove_def)

text \<open>
  C3, as the code has it. \<open>s.update_from_buffer(buffer)\<close> raises \<open>ValueError\<close> exactly
  when \<open>len(buffer) < sizeof(s)\<close>, and then leaves \<open>s\<close> as it was. When the buffer is long
  enough and is a bytes object or a ctypes array of \<open>c_uint8\<close>, the call succeeds and the
  memory of \<open>s\<close> becomes the first \<open>sizeof(s)\<close> bytes of the buffer, whatever follows
  them. When it is long enough and is a bytearray, a memoryview, a list or a tuple,
  \<open>memmove\<close> raises \<open>ctypes.ArgumentError\<close> and \<open>s\<close> stays as it was.
\<close>

theorem update_from_buffer_size_check:
  "(fst (update_from_buffer s buffer) = Inl ValueError \<longleftrightarrow>
      byteseq_len buffer < sizeof_instance s) \<and>
   (byteseq_len buffer < sizeof_instance s \<longrightarrow> snd (update_from_buffer s buffer) = s) \<and>
   (sizeof_instance s \<le> length bs \<longrightarrow>
      update_from_buffer s (Bytes bs) =
        (Inr (), CData (ctype_of s) (take (sizeof_instance s) bs)) \<and>
      update_from_buffer s (Uint8Array bs) =
        (Inr (), CData (ctype_of s) (take (sizeof_instance s) bs)) \<and>
      update_from_buffer s (ByteArray bs) = (Inl ArgumentError, s) \<and>
      update_from_buffer s (Memoryview bs) = (Inl ArgumentError, s)) \<and>
   (sizeof_instance s \<le> length xs \<longrightarrow>
      update_from_buffer s (ListOf xs) = (Inl ArgumentError, s) \<and>
      update_from_buffer s (TupleOf xs) = (Inl ArgumentError, s))"
proof (intro conjI impI)
  show "fst (update_from_buffer s buffer) = Inl ValueError \<longleftrightarrow>
      byteseq_len buffer < sizeof_instance s"
    by (cases buffer) (simp_all add: update_from_buffer_def c_void_p_from_param_def)
next
  assume "byteseq_len buffer < sizeof_instance s"
  then show "snd (update_from_buffer s buffer) = s"
    by (simp add: update_from_buffer_def)
next
  assume long: "sizeof_instance s \<le> length bs"
  then show "update_from_buffer s (Bytes bs) =
        (Inr (), CData (ctype_of s) (take (sizeof_instance s) bs))"
    and "update_from_buffer s (Uint8Array bs) =
        (Inr (), CData (ctype_of s) (take (sizeof_instance s) bs))"
    by (simp_all add: update_from_buffer_def byteseq_len_def c_void_p_from_param_def
        memmove_def sizeof_instance_def)
  from long show "update_from_buffer s (ByteArray bs) = (Inl ArgumentError, s)"
    and "update_from_buffer s (Memoryview bs) = (Inl ArgumentError, s)"
    by (simp_all add: update_from_buffer_def byteseq_len_def c_void_p_from_param_def)
next
  assume "sizeof_instance s \<le> length xs"
  then show "update_from_buffer s (ListOf xs) = (Inl ArgumentError, s)"
    and "update_from_buffer s (TupleOf xs) = (Inl ArgumentError, s)"
    by (simp_all add: update_from_buffer_def byteseq_len_def c_void_p_from_param_def)
qed

theorem update_from_buffer_size_check_witness:
  "fst (update_from_buffer (CData (AtcaStructure ''Pair'' [(''x'', c_uint8), (''y'', c_uint16)])
          [1, 2, 3, 4]) (Bytes [9, 8, 7])) = Inl ValueError \<and>
   snd (update_from_buffer (CData (AtcaStructure ''Pair'' [(''x'', c_uint8), (''y'', c_uint16)])
          [1, 2, 3, 4]) (Bytes [9, 8, 7])) =
     CData (AtcaStructure ''Pair'' [(''x'', c_uint8), (''y'', c_uint16)]) [1, 2, 3, 4] \<and>
   update_from_buffer (CData (AtcaStructure ''Pair'' [(''x'', c_uint8), (''y'', c_uint16)])
          [1, 2, 3, 4]) (Bytes [9, 8, 7, 6, 5]) =
     (Inr (), CData (AtcaStructure ''Pair'' [(''x'', c_uint8), (''y'', c_uint16)]) [9, 8, 7, 6]) \<and>
   update_from_buffer (CData (AtcaStructure ''Pair'' [(''x'', c_uint8), (''y'', c_uint16)])
          [1, 2, 3, 4]) (Uint8Array [9, 8, 7, 6, 5]) =
     (Inr (), CData (AtcaStructure ''Pair'' [(''x'', c_uint8), (''y'', c_uint16)]) [9, 8, 7, 6]) \<and>
   update_from_buffer (CData (AtcaStructure ''Pair'' [(''x'', c_uint8), (''y'', c_uint16)])
          [1, 2, 3, 4]) (Memoryview [9, 8, 7, 6, 5]) =
     (Inl ArgumentError,
      CData (AtcaStructure ''Pair'' [(''x'', c_uint8), (''y'', c_uint16)]) [1, 2, 3, 4]) \<and>
   update_from_buffer (CData (AtcaStructure ''Pair'' [(''x'', c_uint8), (''y'', c_uint16)])
          [1, 2, 3, 4]) (ListOf [9, 8, 7, 6]) =
     (Inl ArgumentError,
      CData (AtcaStructure ''Pair'' [(''x'', c_uint8), (''y'', c_uint16)]) [1, 2, 3, 4])"
  using update_from_buffer_size_check
          [of "CData (AtcaStructure ''Pair'' [(''x'', c_uint8), (''y'', c_uint16)]) [1, 2, 3, 4]"
              "Bytes [9, 8, 7]" "[9, 8, 7, 6, 5]" "[9, 8, 7, 6]"]
  by (simp add: sizeof_instance_def byteseq_len_def)

text \<open>
  The claim C3 as written fails on a bytearray: it is a byte sequence at least as long
  as the structure, and the call does not succeed; the structure keeps its bytes.
\<close>

theorem update_from_buffer_bytearray_counterexample:
  "sizeof_instance (CData (AtcaStructure ''Pair'' [(''x'', c_uint8), (''y'', c_uint16)])
     [1, 2, 3, 4]) \<le> byteseq_len (ByteArray [9, 8, 7, 6, 5]) \<and>
   update_from_buffer (CData (AtcaStructure ''Pair'' [(''x'', c_uint8), (''y'', c_uint16)])
     [1, 2, 3, 4]) (ByteArray [9, 8, 7, 6, 5]) =
     (Inl ArgumentError,
      CData (AtcaStructure ''Pair'' [(''x'', c_uint8), (''y'', c_uint16)]) [1, 2, 3, 4])"
  by (simp add: update_from_buffer_def byteseq_len_def c_void_p_from_param_def
      sizeof_instance_def)

section \<open>Every constructed instance owns \<open>sizeof\<close> bytes\<close>

lemma align_up_ge:
  assumes "0 < a"
  shows "n \<le> align_up a n"
proof -
  define q r where "q = (n + a - 1) div a" and "r = (n + a - 1) mod a"
  have "q * a + r = n + a - 1"
    by (simp add: q_def r_def)
  moreover have "r < a"
    using assms by (simp add: r_def)
  ultimately have "n \<le> q * a"
    by linarith
  then show ?thesis
    by (simp add: align_up_def q_def)
qed

lemma alignment_pos: "0 < alignment t" and fields_alignment_pos: "0 < fields_alignment flds"
  by (induction t and flds rule: alignment_fields_alignment.induct) auto

lemma sizeof_root: "sizeof (root T) = sizeof T"
  by (induction T) simp_all

lemma root_not_Derived: "root T \<noteq> Derived cid base"
  by (induction T) simp_all

lemma struct_end_ge: "off \<le> struct_end off flds"
proof (induction flds arbitrary: off)
  case Nil then show ?case by simp
next
  case (Cons f flds)
  obtain fname t where f: "f = (fname, t)" by (cases f)
  have "off \<le> align_up (alignment t) off" by (rule align_up_ge [OF alignment_pos])
  also have "\<dots> \<le> align_up (alignment t) off + sizeof t" by simp
  also have "\<dots> \<le> struct_end (align_up (alignment t) off + sizeof t) flds" by (rule Cons.IH)
  finally show ?case by (simp add: f)
qed

lemma struct_layout_within:
  "(fname, t, off) \<in> set (struct_layout start flds) \<Longrightarrow> off + sizeof t \<le> struct_end start flds"
proof (induction flds arbitrary: start)
  case Nil then show ?case by simp
next
  case (Cons f flds)
  obtain fname' t' where f: "f = (fname', t')" by (cases f)
  from Cons.prems consider
    (here) "fname = fname'" "t = t'" "off = align_up (alignment t') start"
    | (later) "(fname, t, off) \<in> set (struct_layout (align_up (alignment t') start + sizeof t') flds)"
    by (auto simp: f)
  then show ?case
  proof cases
    case here
    then show ?thesis using struct_end_ge [of "align_up (alignment t') start + sizeof t'" flds]
      by (simp add: f)
  next
    case later
    then show ?thesis using Cons.IH by (simp add: f)
  qed
qed

lemma union_layout_within:
  "(fname, t, off) \<in> set (union_layout flds) \<Longrightarrow> off + sizeof t \<le> union_end flds"
proof (induction flds)
  case Nil
  then show ?case by (simp add: union_layout_def)
next
  case (Cons f flds)
  obtain fname' t' where f: "f = (fname', t')" by (cases f)
  from Cons.prems have "off = 0" and "t = t' \<or> (fname, t, off) \<in> set (union_layout flds)"
    by (auto simp: union_layout_def f)
  with Cons.IH show ?case
    by (auto simp: f)
qed

lemma layout_within:
  "(fname, t, off) \<in> set (layout T) \<Longrightarrow> off + sizeof t \<le> sizeof T"
proof (cases "root T")
  case (AtcaStructure cid flds)
  assume "(fname, t, off) \<in> set (layout T)"
  then have "off + sizeof t \<le> struct_end 0 flds"
    by (simp add: layout_def AtcaStructure struct_layout_within)
  also have "\<dots> \<le> align_up (fields_alignment flds) (struct_end 0 flds)"
    by (rule align_up_ge [OF fields_alignment_pos])
  also have "\<dots> = sizeof T"
    using sizeof_root [of T] by (simp add: AtcaStructure)
  finally show ?thesis .
next
  case (AtcaUnion cid flds)
  assume "(fname, t, off) \<in> set (layout T)"
  then have "off + sizeof t \<le> union_end flds"
    by (simp add: layout_def AtcaUnion union_layout_within)
  also have "\<dots> \<le> align_up (fields_alignment flds) (union_end flds)"
    by (rule align_up_ge [OF fields_alignment_pos])
  also have "\<dots> = sizeof T"
    using sizeof_root [of T] by (simp add: AtcaUnion)
  finally show ?thesis .
qed (simp_all add: layout_def)

lemma length_write_at: "off + length bs \<le> length m \<Longrightarrow> length (write_at m off bs) = length m"
  by (simp add: write_at_def)

lemma length_uint_bytes: "length (uint_bytes n i) = n"
  by (simp add: uint_bytes_def)

lemma setfunc_length: "setfunc t v = Inr bs \<Longrightarrow> length bs = sizeof t"
  using sizeof_root [of t]
  by (auto simp: setfunc_def int_set_def c_set_def length_uint_bytes
      split: ctype.splits pyval.splits if_splits)

lemma cdata_set_length: "cdata_set t v = Inr bs \<Longrightarrow> length bs \<le> sizeof t"
  by (auto simp: cdata_set_def dest: setfunc_length split: pyval.splits if_splits)

lemma s_set_length: "s_set n v = Inr bs \<Longrightarrow> length bs \<le> n"
  by (auto simp: s_set_def Let_def split: pyval.splits if_splits)

lemma field_set_length:
  assumes "field_set t v = Inr bs"
  shows "length bs \<le> sizeof t"
proof (cases "\<exists>elem n. root t = Array elem n \<and> root elem = c_char")
  case True
  then obtain elem n where arr: "root t = Array elem n" and chr: "root elem = c_char"
    by blast
  from assms arr chr have "s_set n v = Inr bs"
    by (simp add: field_set_def)
  then have "length bs \<le> n"
    by (rule s_set_length)
  moreover have "sizeof t = n"
  proof -
    have "sizeof t = sizeof (root t)"
      by (simp add: sizeof_root)
    also have "\<dots> = n * sizeof (root elem)"
      by (simp add: arr sizeof_root)
    also have "\<dots> = n"
      by (simp add: chr)
    finally show ?thesis .
  qed
  ultimately show ?thesis by simp
next
  case False
  with assms have "cdata_set t v = Inr bs"
    by (auto simp: field_set_def split: ctype.splits if_splits)
  then show ?thesis
    by (rule cdata_set_length)
qed

lemma Struct_setattr_length:
  assumes "Struct_setattr (layout T) m fname v = Inr m'" and "length m = sizeof T"
  shows "length m' = sizeof T"
proof (cases "map_of (rev (layout T)) fname")
  case None
  with assms show ?thesis by (simp add: Struct_setattr_def)
next
  case (Some p)
  obtain t off where p: "p = (t, off)" by (cases p)
  from Some have "(fname, t, off) \<in> set (layout T)"
    using map_of_SomeD [of "rev (layout T)" fname "(t, off)"] by (simp add: p)
  then have within: "off + sizeof t \<le> sizeof T" by (rule layout_within)
  from assms(1) Some obtain bs where bs: "field_set t v = Inr bs" and m': "m' = write_at m off bs"
    by (auto simp: Struct_setattr_def p split: sum.splits)
  from bs have "length bs \<le> sizeof t" by (rule field_set_length)
  with within assms(2) show ?thesis by (simp add: m' length_write_at)
qed

lemma init_pos_args_length:
  "init_pos_args (layout T) flds args kwds m = Inr m' \<Longrightarrow> length m = sizeof T \<Longrightarrow>
   length m' = sizeof T"
proof (induction "layout T" flds args kwds m rule: init_pos_args.induct)
  case (1 flds kwds m)
  then show ?case by simp
next
  case (2 a args kwds m)
  then show ?case by simp
next
  case (3 fname t flds a args kwds m)
  from "3.prems"(1) obtain m1 where
    set: "Struct_setattr (layout T) m fname a = Inr m1" and
    rest: "init_pos_args (layout T) flds args kwds m1 = Inr m'" and
    nokw: "fname \<notin> fst ` set kwds"
    by (auto split: if_splits sum.splits)
  from set "3.prems"(2) have "length m1 = sizeof T" by (rule Struct_setattr_length)
  with "3.hyps" nokw set rest show ?case by simp
qed

lemma init_kwds_length:
  "init_kwds (layout T) kwds m = Inr m' \<Longrightarrow> length m = sizeof T \<Longrightarrow> length m' = sizeof T"
proof (induction kwds arbitrary: m)
  case Nil
  then show ?case by simp
next
  case (Cons kv kwds)
  obtain key v where kv: "kv = (key, v)" by (cases kv)
  from Cons.prems(1) obtain m1 where
    set: "Struct_setattr (layout T) m key v = Inr m1" and
    rest: "init_kwds (layout T) kwds m1 = Inr m'"
    by (auto simp: kv split: sum.splits)
  from set Cons.prems(2) have "length m1 = sizeof T" by (rule Struct_setattr_length)
  with Cons.IH rest show ?case by simp
qed

lemma Struct_init_wf:
  assumes "Struct_init T flds args kwds = Inr obj"
  shows "ctype_of obj = T \<and> length (mem obj) = sizeof T"
proof -
  from assms obtain m1 m2 where
    pos: "init_pos_args (layout T) flds args kwds (replicate (sizeof T) 0) = Inr m1" and
    kw: "init_kwds (layout T) kwds m1 = Inr m2" and
    obj: "obj = CData T m2"
    by (auto simp: Struct_init_def split: sum.splits)
  from pos have "length m1 = sizeof T" by (rule init_pos_args_length) simp
  with kw have "length m2 = sizeof T" by (rule init_kwds_length)
  with obj show ?thesis by simp
qed

lemma Array_setitems_length:
  "Array_setitems t n i args m = Inr m' \<Longrightarrow> length m = n * sizeof t \<Longrightarrow>
   length m' = n * sizeof t"
proof (induction args arbitrary: i m)
  case Nil
  then show ?case by simp
next
  case (Cons a args)
  from Cons.prems(1) obtain bs where
    i: "i < n" and bs: "cdata_set t a = Inr bs" and
    rest: "Array_setitems t n (Suc i) args (write_at m (i * sizeof t) bs) = Inr m'"
    by (auto split: if_splits sum.splits)
  from bs have len: "length bs \<le> sizeof t" by (rule cdata_set_length)
  from i have "Suc i * sizeof t \<le> n * sizeof t"
    by (intro mult_le_mono1) simp
  with len have "i * sizeof t + length bs \<le> n * sizeof t" by simp
  with Cons.prems(2) have "length (write_at m (i * sizeof t) bs) = n * sizeof t"
    by (simp add: length_write_at)
  with Cons.IH rest show ?case by blast
qed

lemma Array_init_wf:
  assumes "Array_init T t n args = Inr obj" and "root T = Array t n"
  shows "ctype_of obj = T \<and> length (mem obj) = sizeof T"
proof -
  have size: "sizeof T = n * sizeof t"
    using sizeof_root [of T] by (simp add: assms(2))
  from assms(1) obtain m where
    items: "Array_setitems t n 0 args (replicate (sizeof T) 0) = Inr m" and
    obj: "obj = CData T m"
    by (auto simp: Array_init_def split: sum.splits)
  from items have "length m = n * sizeof t"
    by (rule Array_setitems_length) (simp add: size)
  with obj size show ?thesis by simp
qed

lemma Simple_init_wf:
  assumes "Simple_init T args = Inr obj"
  shows "ctype_of obj = T \<and> length (mem obj) = sizeof T"
  using assms
  by (auto simp: Simple_init_def dest: setfunc_length split: list.splits sum.splits)

lemma ctypes_init_wf:
  assumes "ctypes_init T args kwds = Inr obj"
  shows "ctype_of obj = T \<and> length (mem obj) = sizeof T"
proof (cases "root T")
  case (Array t n)
  with assms show ?thesis
    by (simp add: ctypes_init_def Array_init_wf)
next
  case (AtcaStructure cid flds)
  with assms show ?thesis
    by (simp add: ctypes_init_def Struct_init_wf)
next
  case (AtcaUnion cid flds)
  with assms show ?thesis
    by (simp add: ctypes_init_def Struct_init_wf)
next
  case (Derived cid base)
  then show ?thesis
    by (simp add: root_not_Derived)
qed (use assms in \<open>simp_all add: ctypes_init_def Simple_init_wf\<close>)

lemma ctypes_call_wf:
  assumes "ctypes_call T args kwargs = Inr obj"
  shows "ctype_of obj = T \<and> length (mem obj) = sizeof T"
proof -
  from assms obtain kwargs' where "ctypes_init T args kwargs' = Inr obj"
    by (auto simp: ctypes_call.simps split: ctype.splits sum.splits)
  then show ?thesis
    by (rule ctypes_init_wf)
qed

lemma AtcaStructure_init_no_kwargs: "AtcaStructure_init flds [] = Inr []"
  by (induction flds) auto

lemma ctypes_call_no_args:
  assumes "is_Structure T"
  shows "ctypes_call T [] [] = Inr (CData T (replicate (sizeof T) 0))"
proof -
  from assms obtain cid flds where struct: "root T = AtcaStructure cid flds"
    by (auto simp: is_Structure_def split: ctype.splits)
  then show ?thesis
    by (simp add: ctypes_call.simps AtcaStructure_init_no_kwargs ctypes_init_def Struct_init_def)
qed


section \<open>Properties of the marshalling\<close>

text \<open>
  C4. Round trip: build \<open>s\<close> from a dict with \<open>get_ctype_structure_instance\<close>, take its
  bytes with \<open>ctypes_to_bytes\<close>, construct a fresh instance \<open>s2\<close> of the same structure
  type and call \<open>s2.update_from_buffer\<close> on the bytes. The call succeeds and \<open>s2\<close> then
  holds the bytes of \<open>s\<close>.
\<close>

theorem marshal_bytes_hydrate_roundtrip:
  assumes "is_Structure T"
    and "get_ctype_structure_instance T (PyDict m) = Inr v"
  shows "\<exists>s s2. v = PyCData s \<and> ctypes_call T [] [] = Inr s2 \<and>
           update_from_buffer s2 (Bytes (ctypes_to_bytes s)) = (Inr (), s) \<and>
           mem (snd (update_from_buffer s2 (Bytes (ctypes_to_bytes s)))) = mem s"
proof -
  from assms(2) obtain s where call: "ctypes_call T [] m = Inr s" and v: "v = PyCData s"
    by (auto split: sum.splits)
  from call have wf: "ctype_of s = T" "length (mem s) = sizeof T"
    using ctypes_call_wf by blast+
  define s2 where "s2 = CData T (replicate (sizeof T) 0)"
  from assms(1) have fresh: "ctypes_call T [] [] = Inr s2"
    by (simp add: s2_def ctypes_call_no_args)
  have "update_from_buffer s2 (Bytes (ctypes_to_bytes s)) = (Inr (), CData T (mem s))"
    by (simp add: update_from_buffer_def byteseq_len_def c_void_p_from_param_def
        ctypes_to_bytes_mem sizeof_instance_def s2_def wf memmove_def)
  also have "CData T (mem s) = s"
    using wf(1) by (cases s) simp
  finally have "update_from_buffer s2 (Bytes (ctypes_to_bytes s)) = (Inr (), s)" .
  with v fresh show ?thesis by simp
qed

theorem marshal_bytes_hydrate_roundtrip_witness:
  "\<exists>s s2.
     get_ctype_structure_instance
       (AtcaStructure ''Cfg''
          [(''tag'', c_uint8),
           (''inner'', AtcaStructure ''Pair'' [(''x'', c_uint8), (''y'', c_uint16)]),
           (''data'', Array c_uint8 3),
           (''name'', Array c_char 4),
           (''n'', c_uint32)])
       (PyDict
          [(''tag'', PyInt 7),
           (''inner'', PyDict [(''y'', PyInt 0x1234)]),
           (''data'', PyList [PyInt 1, PyInt 2]),
           (''name'', PyStr ''ab''),
           (''n'', PyInt (- 2))]) = Inr (PyCData s) \<and>
     mem s = [7, 0, 0, 0, 0x34, 0x12, 1, 2, 0, 97, 98, 0, 0, 0, 0, 0, 254, 255, 255, 255] \<and>
     ctypes_call (ctype_of s) [] [] = Inr s2 \<and>
     update_from_buffer s2 (Bytes (ctypes_to_bytes s)) = (Inr (), s)"
proof -
  let ?T = "AtcaStructure ''Cfg''
          [(''tag'', c_uint8),
           (''inner'', AtcaStructure ''Pair'' [(''x'', c_uint8), (''y'', c_uint16)]),
           (''data'', Array c_uint8 3),
           (''name'', Array c_char 4),
           (''n'', c_uint32)]"
  let ?m = "[(''tag'', PyInt 7),
           (''inner'', PyDict [(''y'', PyInt 0x1234)]),
           (''data'', PyList [PyInt 1, PyInt 2]),
           (''name'', PyStr ''ab''),
           (''n'', PyInt (- 2))]"
  let ?s = "CData ?T [7, 0, 0, 0, 0x34, 0x12, 1, 2, 0, 97, 98, 0, 0, 0, 0, 0, 254, 255, 255, 255]"
  have struct: "is_Structure ?T"
    by (simp add: is_Structure_def)
  have built: "get_ctype_structure_instance ?T (PyDict ?m) = Inr (PyCData ?s)"
    by code_simp
  from marshal_bytes_hydrate_roundtrip [OF struct built]
  obtain s2 where "ctypes_call ?T [] [] = Inr s2"
    and "update_from_buffer s2 (Bytes (ctypes_to_bytes ?s)) = (Inr (), ?s)"
    by auto
  with built show ?thesis
    by (intro exI [of _ ?s] exI [of _ s2]) simp
qed

text \<open>The four bytes of \<open>c_uint(i)\<close> are the unsigned 32-bit representation of \<open>i\<close>.\<close>

lemma uint_bytes_Suc: "uint_bytes (Suc n) i = word_of_int i # uint_bytes n (i div 256)"
proof -
  have shift: "i div 2 ^ (8 * Suc k) = i div 256 div 2 ^ (8 * k)" for k
  proof -
    have "(2::int) ^ (8 * Suc k) = 256 * 2 ^ (8 * k)"
      by (simp add: power_add)
    then show ?thesis
      by (simp add: zdiv_zmult2_eq)
  qed
  have "[0..<Suc n] = 0 # map Suc [0..<n]"
    by (simp add: upt_conv_Cons map_Suc_upt del: upt_Suc)
  then show ?thesis
    by (simp add: uint_bytes_def comp_def shift del: upt_Suc power_Suc mult_Suc_right)
qed

lemma bytes_uint_uint_bytes: "bytes_uint (uint_bytes n i) = i mod 2 ^ (8 * n)"
proof (induction n arbitrary: i)
  case 0
  then show ?case by (simp add: uint_bytes_def bytes_uint_def)
next
  case (Suc n)
  have "bytes_uint (uint_bytes (Suc n) i) = i mod 256 + 256 * bytes_uint (uint_bytes n (i div 256))"
    by (simp add: uint_bytes_Suc bytes_uint_def uint_word_of_int)
  also have "\<dots> = 256 * (i div 256 mod 2 ^ (8 * n)) + i mod 256"
    by (simp add: Suc.IH)
  also have "\<dots> = i mod (256 * 2 ^ (8 * n))"
    by (simp add: zmod_zmult2_eq)
  also have "(256::int) * 2 ^ (8 * n) = 2 ^ (8 * Suc n)"
    by (simp add: power_add)
  finally show ?case .
qed

text \<open>
  C5. \<open>get_ctype_structure_instance\<close> chooses by the type of \<open>value\<close>: a dict is passed
  to the constructor as keyword arguments; an int is not assigned to fields but its
  4-byte unsigned representation is copied over the structure, as far as the
  structure reaches (for a structure of at most 4 bytes); a member of an \<open>AtcaEnum\<close> is
  copied in the same way from its int value; an instance of the structure type, which
  is an instance of that class or of a class derived from it, comes back as it is;
  every other value, also an instance of another class with the same fields, is the
  one positional argument of the constructor.
\<close>

theorem get_ctype_structure_instance_dispatch:
  "get_ctype_structure_instance structure (PyDict d) =
     (case ctypes_call structure [] d of Inl e \<Rightarrow> Inl e | Inr r \<Rightarrow> Inr (PyCData r)) \<and>
   (sizeof structure \<le> 4 \<longrightarrow>
      get_ctype_structure_instance structure (PyInt i) =
        Inr (PyCData (CData structure (take (sizeof structure) (uint_bytes 4 i)))) \<and>
      get_ctype_structure_instance structure (PyEnum i) =
        Inr (PyCData (CData structure (take (sizeof structure) (uint_bytes 4 i))))) \<and>
   length (uint_bytes 4 i) = 4 \<and> bytes_uint (uint_bytes 4 i) = i mod 2 ^ 32 \<and>
   (isinstance obj structure \<longrightarrow>
      get_ctype_structure_instance structure (PyCData obj) = Inr (PyCData obj)) \<and>
   get_ctype_structure_instance structure (PyCData (CData structure m)) =
     Inr (PyCData (CData structure m)) \<and>
   get_ctype_structure_instance structure (PyCData (CData (Derived cid structure) m)) =
     Inr (PyCData (CData (Derived cid structure) m)) \<and>
   ((case v of
       PyDict d' \<Rightarrow> False
     | PyInt i' \<Rightarrow> False
     | PyEnum i' \<Rightarrow> False
     | PyCData obj' \<Rightarrow> \<not> isinstance obj' structure
     | _ \<Rightarrow> True) \<longrightarrow>
      get_ctype_structure_instance structure v =
        (case ctypes_call structure [v] [] of Inl e \<Rightarrow> Inl e | Inr r \<Rightarrow> Inr (PyCData r))) \<and>
   (cid' \<noteq> cid'' \<longrightarrow>
      \<not> isinstance (CData (AtcaStructure cid' flds) m) (AtcaStructure cid'' flds))"
proof (intro conjI impI)
  show "get_ctype_structure_instance structure (PyDict d) =
     (case ctypes_call structure [] d of Inl e \<Rightarrow> Inl e | Inr r \<Rightarrow> Inr (PyCData r))"
    by simp
next
  assume "sizeof structure \<le> 4"
  then show "get_ctype_structure_instance structure (PyInt i) =
        Inr (PyCData (CData structure (take (sizeof structure) (uint_bytes 4 i))))"
    by (simp add: from_buffer_copy_def c_uint_value_def sizeof_instance_def length_uint_bytes)
next
  assume "sizeof structure \<le> 4"
  then show "get_ctype_structure_instance structure (PyEnum i) =
        Inr (PyCData (CData structure (take (sizeof structure) (uint_bytes 4 i))))"
    by (simp add: from_buffer_copy_def c_uint_value_def sizeof_instance_def length_uint_bytes)
next
  show "length (uint_bytes 4 i) = 4"
    by (rule length_uint_bytes)
next
  show "bytes_uint (uint_bytes 4 i) = i mod 2 ^ 32"
    using bytes_uint_uint_bytes [of 4 i] by simp
next
  assume "isinstance obj structure"
  then show "get_ctype_structure_instance structure (PyCData obj) = Inr (PyCData obj)"
    by simp
next
  have "isinstance (CData structure m) structure"
    by (cases "structure") (simp_all add: isinstance_def)
  then show "get_ctype_structure_instance structure (PyCData (CData structure m)) =
     Inr (PyCData (CData structure m))"
    by simp
next
  have "structure \<in> set (mro structure)"
    by (cases "structure") simp_all
  then have "isinstance (CData (Derived cid structure) m) structure"
    by (simp add: isinstance_def)
  then show "get_ctype_structure_instance structure (PyCData (CData (Derived cid structure) m)) =
     Inr (PyCData (CData (Derived cid structure) m))"
    by simp
next
  assume "case v of
       PyDict d' \<Rightarrow> False
     | PyInt i' \<Rightarrow> False
     | PyEnum i' \<Rightarrow> False
     | PyCData obj' \<Rightarrow> \<not> isinstance obj' structure
     | _ \<Rightarrow> True"
  then show "get_ctype_structure_instance structure v =
        (case ctypes_call structure [v] [] of Inl e \<Rightarrow> Inl e | Inr r \<Rightarrow> Inr (PyCData r))"
    by (cases v) simp_all
next
  assume "cid' \<noteq> cid''"
  then show "\<not> isinstance (CData (AtcaStructure cid' flds) m) (AtcaStructure cid'' flds)"
    by (simp add: isinstance_def)
qed

theorem get_ctype_structure_instance_dispatch_witness:
  "get_ctype_structure_instance (AtcaStructure ''Pair'' [(''x'', c_uint8), (''y'', c_uint16)])
     (PyDict [(''y'', PyInt 0x1234)]) =
     Inr (PyCData (CData (AtcaStructure ''Pair'' [(''x'', c_uint8), (''y'', c_uint16)])
            [0, 0, 0x34, 0x12])) \<and>
   get_ctype_structure_instance (AtcaStructure ''Pair'' [(''x'', c_uint8), (''y'', c_uint16)])
     (PyInt 0x01020304) =
     Inr (PyCData (CData (AtcaStructure ''Pair'' [(''x'', c_uint8), (''y'', c_uint16)])
            [4, 3, 2, 1])) \<and>
   get_ctype_structure_instance c_uint8 (PyEnum 0x105) = Inr (PyCData (CData c_uint8 [5])) \<and>
   get_ctype_structure_instance c_uint16 (PyCData (CData c_uint16 [1, 2])) =
     Inr (PyCData (CData c_uint16 [1, 2])) \<and>
   get_ctype_structure_instance (AtcaStructure ''Pair'' [(''x'', c_uint8), (''y'', c_uint16)])
     (PyCData (CData
        (Derived ''SubPair'' (AtcaStructure ''Pair'' [(''x'', c_uint8), (''y'', c_uint16)]))
        [1, 0, 2, 0])) =
     Inr (PyCData (CData
        (Derived ''SubPair'' (AtcaStructure ''Pair'' [(''x'', c_uint8), (''y'', c_uint16)]))
        [1, 0, 2, 0])) \<and>
   get_ctype_structure_instance (AtcaStructure ''Pair'' [(''x'', c_uint8), (''y'', c_uint16)])
     (PyCData (CData (AtcaStructure ''Pair2'' [(''x'', c_uint8), (''y'', c_uint16)])
        [1, 0, 2, 0])) = Inl TypeError \<and>
   get_ctype_structure_instance
     (AtcaStructure ''Wrap''
        [(''p'', AtcaStructure ''Pair'' [(''x'', c_uint8), (''y'', c_uint16)]), (''z'', c_uint8)])
     (PyCData (CData (AtcaStructure ''Pair'' [(''x'', c_uint8), (''y'', c_uint16)]) [1, 0, 2, 0])) =
     Inr (PyCData (CData
       (AtcaStructure ''Wrap''
          [(''p'', AtcaStructure ''Pair'' [(''x'', c_uint8), (''y'', c_uint16)]), (''z'', c_uint8)])
       [1, 0, 2, 0, 0, 0])) \<and>
   get_ctype_structure_instance (AtcaStructure ''Pair'' [(''x'', c_uint8), (''y'', c_uint16)])
     (PyStr ''ab'') = Inl TypeError \<and>
   ctypes_call (AtcaStructure ''Pair'' [(''x'', c_uint8), (''y'', c_uint16)])
     [PyInt 0x01020304] [] =
     Inr (CData (AtcaStructure ''Pair'' [(''x'', c_uint8), (''y'', c_uint16)]) [4, 0, 0, 0])"
proof -
  let ?flds = "[(''x'', c_uint8), (''y'', c_uint16)]"
  let ?Pair = "AtcaStructure ''Pair'' ?flds"
  let ?Pair2 = "AtcaStructure ''Pair2'' ?flds"
  let ?Wrap = "AtcaStructure ''Wrap'' [(''p'', ?Pair), (''z'', c_uint8)]"
  let ?p = "CData ?Pair [1, 0, 2, 0]"
  let ?p2 = "CData ?Pair2 [1, 0, 2, 0]"
  have by_field: "ctypes_call ?Pair [PyInt 0x01020304] [] = Inr (CData ?Pair [4, 0, 0, 0])"
    by code_simp
  have kw: "ctypes_call ?Pair [] [(''y'', PyInt 0x1234)] = Inr (CData ?Pair [0, 0, 0x34, 0x12])"
    by code_simp
  have small: "sizeof ?Pair \<le> 4" "sizeof c_uint8 \<le> 4"
    by code_simp+
  have raw: "take (sizeof ?Pair) (uint_bytes 4 0x01020304) = [4, 3, 2, 1]"
            "take (sizeof c_uint8) (uint_bytes 4 0x105) = [5]"
    by code_simp+
  have same: "isinstance (CData c_uint16 [1, 2]) c_uint16"
    by (simp add: isinstance_def)
  have names: "(''Pair2'' :: class_id) \<noteq> ''Pair''"
    by simp
  from get_ctype_structure_instance_dispatch
         [of _ _ _ _ "[1, 0, 2, 0]" _ _ "''Pair2''" "''Pair''" ?flds]
       names
  have lookalike: "\<not> isinstance ?p2 ?Pair"
    by blast
  have other: "case PyCData ?p of
       PyDict d' \<Rightarrow> False
     | PyInt i' \<Rightarrow> False
     | PyEnum i' \<Rightarrow> False
     | PyCData obj' \<Rightarrow> \<not> isinstance obj' ?Wrap
     | _ \<Rightarrow> True"
    by (simp add: isinstance_def)
  have other': "case PyStr ''ab'' of
       PyDict d' \<Rightarrow> False
     | PyInt i' \<Rightarrow> False
     | PyEnum i' \<Rightarrow> False
     | PyCData obj' \<Rightarrow> \<not> isinstance obj' ?Pair
     | _ \<Rightarrow> True"
    by simp
  have other'': "case PyCData ?p2 of
       PyDict d' \<Rightarrow> False
     | PyInt i' \<Rightarrow> False
     | PyEnum i' \<Rightarrow> False
     | PyCData obj' \<Rightarrow> \<not> isinstance obj' ?Pair
     | _ \<Rightarrow> True"
    using lookalike by simp
  have pos: "ctypes_call ?Wrap [PyCData ?p] [] = Inr (CData ?Wrap [1, 0, 2, 0, 0, 0])"
    by code_simp
  have pos': "ctypes_call ?Pair [PyStr ''ab''] [] = Inl TypeError"
    by code_simp
  have pos'': "ctypes_call ?Pair [PyCData ?p2] [] = Inl TypeError"
    by code_simp
  from get_ctype_structure_instance_dispatch
         [of ?Pair "[(''y'', PyInt 0x1234)]" "0x01020304" _ "[1, 0, 2, 0]" "''SubPair''"
             "PyStr ''ab''"]
       kw small(1) raw(1) other' pos'
  have "get_ctype_structure_instance ?Pair (PyDict [(''y'', PyInt 0x1234)]) =
          Inr (PyCData (CData ?Pair [0, 0, 0x34, 0x12]))"
    and "get_ctype_structure_instance ?Pair (PyInt 0x01020304) =
          Inr (PyCData (CData ?Pair [4, 3, 2, 1]))"
    and "get_ctype_structure_instance ?Pair (PyStr ''ab'') = Inl TypeError"
    and "get_ctype_structure_instance ?Pair (PyCData (CData (Derived ''SubPair'' ?Pair) [1, 0, 2, 0])) =
          Inr (PyCData (CData (Derived ''SubPair'' ?Pair) [1, 0, 2, 0]))"
    by simp_all
  moreover
  from get_ctype_structure_instance_dispatch [of ?Pair _ _ _ _ _ "PyCData ?p2"]
       other'' pos''
  have "get_ctype_structure_instance ?Pair (PyCData ?p2) = Inl TypeError"
    by simp
  moreover
  from get_ctype_structure_instance_dispatch [of c_uint8 _ "0x105"]
       small(2) raw(2)
  have "get_ctype_structure_instance c_uint8 (PyEnum 0x105) = Inr (PyCData (CData c_uint8 [5]))"
    by simp
  moreover
  from get_ctype_structure_instance_dispatch [of c_uint16 _ _ "CData c_uint16 [1, 2]"] same
  have "get_ctype_structure_instance c_uint16 (PyCData (CData c_uint16 [1, 2])) =
          Inr (PyCData (CData c_uint16 [1, 2]))"
    by simp
  moreover
  from get_ctype_structure_instance_dispatch [of ?Wrap _ _ _ _ _ "PyCData ?p"]
       other pos
  have "get_ctype_structure_instance ?Wrap (PyCData ?p) =
          Inr (PyCData (CData ?Wrap [1, 0, 2, 0, 0, 0]))"
    by simp
  ultimately show ?thesis
    using by_field by simp
qed

section \<open>Properties of \<open>create_byte_buffer\<close>\<close>

lemma cdata_set_uint8_int: "cdata_set c_uint8 (PyInt x) = Inr [word_of_int x]"
  by (simp add: cdata_set_def setfunc_def int_set_def uint_bytes_def)

lemma Array_setitems_uint8:
  "length m = n \<Longrightarrow> i + length xs \<le> n \<Longrightarrow>
   Array_setitems c_uint8 n i (map PyInt xs) m =
     Inr (take i m @ map word_of_int xs @ drop (i + length xs) m)"
proof (induction xs arbitrary: i m)
  case Nil
  then show ?case by simp
next
  case (Cons x xs)
  from Cons.prems have i: "i < n" and rest: "Suc i + length xs \<le> n" by simp_all
  have len: "length (write_at m i [word_of_int x]) = n"
    using Cons.prems i by (simp add: length_write_at)
  have "Array_setitems c_uint8 n i (map PyInt (x # xs)) m =
        Array_setitems c_uint8 n (Suc i) (map PyInt xs) (write_at m i [word_of_int x])"
    using i by (simp add: cdata_set_uint8_int)
  also have "\<dots> = Inr (take (Suc i) (write_at m i [word_of_int x]) @ map word_of_int xs @
                        drop (Suc i + length xs) (write_at m i [word_of_int x]))"
    using Cons.IH [OF len rest] .
  also have "take (Suc i) (write_at m i [word_of_int x]) = take i m @ [word_of_int x]"
    using Cons.prems i by (simp add: write_at_def)
  also have "drop (Suc i + length xs) (write_at m i [word_of_int x]) = drop (Suc i + length xs) m"
    using Cons.prems i by (simp add: write_at_def add.commute)
  finally show ?case by simp
qed

lemma Array_init_uint8:
  "Array_init (Array c_uint8 (length xs)) c_uint8 (length xs) (map PyInt xs) =
     Inr (CData (Array c_uint8 (length xs)) (map word_of_int xs))"
  using Array_setitems_uint8 [of "replicate (length xs) 0" "length xs" 0 xs]
  by (simp add: Array_init_def)

lemma bytes_uint_single: "bytes_uint [b] = uint b"
  by (simp add: bytes_uint_def)

lemma take1_drop: "i < length m \<Longrightarrow> take (Suc 0) (drop i m) = [m ! i]"
  by (simp add: take_Suc_conv_app_nth Cons_nth_drop_Suc [symmetric])

lemma Array_items_uint8: "Array_items c_uint8 (length m) m = map (\<lambda>b. PyInt (uint b)) m"
proof -
  have "Array_items c_uint8 (length m) m = map (\<lambda>i. PyInt (uint (m ! i))) [0..<length m]"
    by (simp add: Array_items_def getitem_def take1_drop bytes_uint_single)
  also have "\<dots> = map (\<lambda>b. PyInt (uint b)) (map ((!) m) [0..<length m])"
    by simp
  also have "\<dots> = map (\<lambda>b. PyInt (uint b)) m"
    by (simp only: map_nth)
  finally show ?thesis .
qed

lemma uint_word_of_int_byte: "0 \<le> x \<Longrightarrow> x < 256 \<Longrightarrow> uint (word_of_int x :: byte) = x"
  by (simp add: uint_word_of_int)

text \<open>
  C9. For an int \<open>n \<ge> 0\<close>, \<open>create_byte_buffer(n)\<close> is a buffer of \<open>n\<close> bytes, all zero.
  For a bytes object, or a list of ints that are byte values, it is a buffer of the
  same length with the same elements in the same order. \<open>create_byte_buffer(5)\<close> is
  five zero bytes and \<open>create_byte_buffer([1, 2, 3])\<close> holds 1, 2, 3.
\<close>

theorem create_byte_buffer_contents:
  "(0 \<le> n \<longrightarrow>
      create_byte_buffer (PyInt n) = Inr (CData (Array c_uint8 (nat n)) (replicate (nat n) 0)) \<and>
      py_len (PyCData (CData (Array c_uint8 (nat n)) (replicate (nat n) 0))) = Inr (nat n) \<and>
      py_list (PyCData (CData (Array c_uint8 (nat n)) (replicate (nat n) 0))) =
        Inr (replicate (nat n) (PyInt 0))) \<and>
   create_byte_buffer (PyBytes s) = Inr (CData (Array c_uint8 (length s)) s) \<and>
   py_len (PyCData (CData (Array c_uint8 (length s)) s)) = Inr (length s) \<and>
   py_list (PyCData (CData (Array c_uint8 (length s)) s)) = py_list (PyBytes s) \<and>
   ((\<forall>x \<in> set xs. 0 \<le> x \<and> x < 256) \<longrightarrow>
      create_byte_buffer (PyList (map PyInt xs)) =
        Inr (CData (Array c_uint8 (length xs)) (map word_of_int xs)) \<and>
      py_list (PyCData (CData (Array c_uint8 (length xs)) (map word_of_int xs))) =
        Inr (map PyInt xs)) \<and>
   create_byte_buffer (PyInt 5) = Inr (CData (Array c_uint8 5) [0, 0, 0, 0, 0]) \<and>
   create_byte_buffer (PyList [PyInt 1, PyInt 2, PyInt 3]) =
     Inr (CData (Array c_uint8 3) [1, 2, 3])"
proof (intro conjI impI)
  assume "0 \<le> n"
  then show "create_byte_buffer (PyInt n) =
      Inr (CData (Array c_uint8 (nat n)) (replicate (nat n) 0))"
    by (simp add: create_byte_buffer_def ctypes_call.simps ctypes_init_def Array_init_def)
next
  show "py_len (PyCData (CData (Array c_uint8 (nat n)) (replicate (nat n) 0))) = Inr (nat n)"
    by (simp add: py_len_def)
next
  show "py_list (PyCData (CData (Array c_uint8 (nat n)) (replicate (nat n) 0))) =
        Inr (replicate (nat n) (PyInt 0))"
    using Array_items_uint8 [of "replicate (nat n) 0"]
    by (simp add: py_list_def)
next
  have "map (\<lambda>b. word_of_int (uint b)) s = s"
    by (induction s) simp_all
  then show "create_byte_buffer (PyBytes s) = Inr (CData (Array c_uint8 (length s)) s)"
    using Array_init_uint8 [of "map uint s"]
    by (simp add: create_byte_buffer_def py_len_def py_list_def ctypes_call.simps ctypes_init_def comp_def)
next
  show "py_len (PyCData (CData (Array c_uint8 (length s)) s)) = Inr (length s)"
    by (simp add: py_len_def)
next
  show "py_list (PyCData (CData (Array c_uint8 (length s)) s)) = py_list (PyBytes s)"
    using Array_items_uint8 [of s] by (simp add: py_list_def)
next
  show "create_byte_buffer (PyList (map PyInt xs)) =
        Inr (CData (Array c_uint8 (length xs)) (map word_of_int xs))"
    using Array_init_uint8 [of xs]
    by (simp add: create_byte_buffer_def py_len_def py_list_def ctypes_call.simps ctypes_init_def)
next
  assume range: "\<forall>x \<in> set xs. 0 \<le> x \<and> x < 256"
  then have "map (\<lambda>b. PyInt (uint b)) (map word_of_int xs :: byte list) = map PyInt xs"
    by (induction xs) (simp_all add: uint_word_of_int_byte)
  then show "py_list (PyCData (CData (Array c_uint8 (length xs)) (map word_of_int xs))) =
        Inr (map PyInt xs)"
    using Array_items_uint8 [of "map word_of_int xs"] by (simp add: py_list_def)
next
  show "create_byte_buffer (PyInt 5) = Inr (CData (Array c_uint8 5) [0, 0, 0, 0, 0])"
    by code_simp
next
  show "create_byte_buffer (PyList [PyInt 1, PyInt 2, PyInt 3]) =
     Inr (CData (Array c_uint8 3) [1, 2, 3])"
    by code_simp
qed


theorem create_byte_buffer_contents_witness:
  "create_byte_buffer (PyInt 2) = Inr (CData (Array c_uint8 2) [0, 0]) \<and>
   py_list (PyCData (CData (Array c_uint8 2) [0, 0])) = Inr [PyInt 0, PyInt 0] \<and>
   create_byte_buffer (PyList [PyInt 0, PyInt 255, PyInt 16]) =
     Inr (CData (Array c_uint8 3) [0, 255, 16]) \<and>
   py_list (PyCData (CData (Array c_uint8 3) [0, 255, 16])) = Inr [PyInt 0, PyInt 255, PyInt 16]"
proof -
  have nonneg: "(0::int) \<le> 2"
    by simp
  have range: "\<forall>x \<in> set [0, 255, 16 :: int]. 0 \<le> x \<and> x < 256"
    by simp
  from create_byte_buffer_contents [of 2 "[]" "[0, 255, 16]"] nonneg range
  show ?thesis
    by (simp add: numeral_2_eq_2 numeral_3_eq_3)
qed

end
